theory Spec2Isabelle
  imports Complex_Main
begin

section \<open>JavaScript values\<close>

text \<open>
  The server is TypeScript whose tool arguments (\<open>Record<string, unknown>\<close>) and broker
  bodies (\<open>any\<close>) are untyped at run time, so they are modelled as JavaScript values.
  An object is its list of properties in insertion order; a lookup takes the first
  binding of a key.
\<close>

datatype jsval =
    JUndef
  | JNull
  | JBool bool
  | JNum rat
  | JStr string
  | JArr "jsval list"
  | JObj "(string \<times> jsval) list"

text \<open>What \<open>if (v)\<close>, \<open>!v\<close>, \<open>a || b\<close> and \<open>a && b\<close> test.\<close>

fun truthy :: "jsval \<Rightarrow> bool" where
  "truthy JUndef = False"
| "truthy JNull = False"
| "truthy (JBool b) = b"
| "truthy (JNum n) = (n \<noteq> 0)"
| "truthy (JStr s) = (s \<noteq> [])"
| "truthy (JArr xs) = True"
| "truthy (JObj kvs) = True"

definition js_or :: "jsval \<Rightarrow> jsval \<Rightarrow> jsval" where
  "js_or a b = (if truthy a then a else b)"

fun nullish :: "jsval \<Rightarrow> bool" where
  "nullish JUndef = True"
| "nullish JNull = True"
| "nullish v = False"

text \<open>\<open>typeof v === 'object'\<close>.\<close>

fun is_object :: "jsval \<Rightarrow> bool" where
  "is_object JNull = True"
| "is_object (JArr xs) = True"
| "is_object (JObj kvs) = True"
| "is_object v = False"

definition obj_get :: "(string \<times> jsval) list \<Rightarrow> string \<Rightarrow> jsval" where
  "obj_get kvs k = (case map_of kvs k of None \<Rightarrow> JUndef | Some v \<Rightarrow> v)"

text \<open>\<open>o[k] = v\<close>: an existing key keeps its place, a new one goes last.\<close>

fun obj_put :: "string \<Rightarrow> jsval \<Rightarrow> (string \<times> jsval) list \<Rightarrow> (string \<times> jsval) list" where
  "obj_put k v [] = [(k, v)]"
| "obj_put k v (p # ps) = (if fst p = k then (k, v) # ps else p # obj_put k v ps)"

text \<open>
  \<open>js_prop v k\<close> is \<open>v?.k\<close>: the property of an object, and \<open>undefined\<close> on
  \<open>null\<close>, \<open>undefined\<close> and on the values that have no such property. None of the keys the
  server reads (\<open>accounts\<close>, \<open>positions\<close>, \<open>status\<close>, \<open>dealId\<close>, ...) is a built-in
  property of a string, a number or an array.
\<close>

fun js_prop :: "jsval \<Rightarrow> string \<Rightarrow> jsval" where
  "js_prop (JObj kvs) k = obj_get kvs k"
| "js_prop v k = JUndef"

text \<open>
  Exceptions. An \<open>Error\<close> instance has a name, a message and a stack; anything else that is
  thrown is kept by its string.
\<close>

datatype exn =
    JsError string string string
  | JsThrown string

definition type_error :: "string \<Rightarrow> exn" where
  "type_error msg = JsError ''TypeError'' msg []"

text \<open>\<open>v.k\<close>: reading a property of \<open>null\<close> or \<open>undefined\<close> throws a TypeError.\<close>

definition js_get :: "jsval \<Rightarrow> string \<Rightarrow> exn + jsval" where
  "js_get v k =
     (if nullish v
      then Inl (type_error (''Cannot read properties of ''
                 @ (if v = JNull then ''null'' else ''undefined'')
                 @ '' (reading '' @ [CHR 0x27] @ k @ [CHR 0x27] @ '')''))
      else Inr (js_prop v k))"

text \<open>\<open>error instanceof Error ? error.message : String(error)\<close>, and the same with the stack.\<close>

fun exn_String :: "exn \<Rightarrow> string" where
  "exn_String (JsError name msg stack) =
     (if name = [] then msg else if msg = [] then name else name @ '': '' @ msg)"
| "exn_String (JsThrown s) = s"

fun message_or_String :: "exn \<Rightarrow> string" where
  "message_or_String (JsError name msg stack) = msg"
| "message_or_String (JsThrown s) = s"

fun stack_or_String :: "exn \<Rightarrow> string" where
  "stack_or_String (JsError name msg stack) = stack"
| "stack_or_String (JsThrown s) = s"

text \<open>
  \<open>JSON.stringify\<close> followed by \<open>JSON.parse\<close>: the document a text stands for. A property
  that is \<open>undefined\<close> is left out, an \<open>undefined\<close> array element becomes \<open>null\<close>.
\<close>

fun json_doc :: "jsval \<Rightarrow> jsval" where
  "json_doc (JArr xs) = JArr (map (\<lambda>x. if x = JUndef then JNull else json_doc x) xs)"
| "json_doc (JObj kvs) =
     JObj (map (\<lambda>(k, v). (k, json_doc v)) (filter (\<lambda>(k, v). v \<noteq> JUndef) kvs))"
| "json_doc v = v"

section \<open>The host: HTTP, clock and built-in renderings\<close>

type_synonym headers = "(string \<times> jsval) list"

record http_request =
  req_method :: jsval
  req_baseURL :: string
  req_url :: string
  req_headers :: headers
  req_params :: jsval
  req_data :: jsval

record http_response =
  resp_status :: nat
  resp_statusText :: string
  resp_headers :: "(string \<times> string) list"
  resp_data :: jsval

record axios_error =
  ae_message :: string
  ae_response :: "http_response option"
  ae_config :: "http_request option"

datatype thrown = AxiosError axios_error | Thrown exn

datatype http_outcome = Resolved http_response | Rejected thrown

text \<open>
  What the code takes from outside: how the broker (through axios) answers a request,
  the clock of \<open>new Date()\<close>, and the built-in renderings \<open>String(v)\<close> and
  \<open>JSON.stringify(v)\<close> used inside message texts and URLs.
\<close>

record host =
  http :: "http_request \<Rightarrow> http_outcome"
  clock :: nat
  to_string :: "jsval \<Rightarrow> string"
  json_text :: "jsval \<Rightarrow> string"

text \<open>A value inside a template literal.\<close>

definition js_String :: "host \<Rightarrow> jsval \<Rightarrow> string" where
  "js_String h v =
     (case v of
        JStr s \<Rightarrow> s
      | JUndef \<Rightarrow> ''undefined''
      | JNull \<Rightarrow> ''null''
      | JBool b \<Rightarrow> (if b then ''true'' else ''false'')
      | _ \<Rightarrow> to_string h v)"

text \<open>\<open>{...v}\<close>: the own enumerable properties of \<open>v\<close>.\<close>

definition spread_props :: "host \<Rightarrow> jsval \<Rightarrow> (string \<times> jsval) list" where
  "spread_props h v =
     (case v of
        JObj kvs \<Rightarrow> kvs
      | JArr xs \<Rightarrow> map (\<lambda>i. (to_string h (JNum (of_nat i)), xs ! i)) [0..<length xs]
      | JStr s \<Rightarrow> map (\<lambda>i. (to_string h (JNum (of_nat i)), JStr [s ! i])) [0..<length s]
      | _ \<Rightarrow> [])"

definition assign_props :: "(string \<times> jsval) list \<Rightarrow> (string \<times> jsval) list \<Rightarrow> (string \<times> jsval) list" where
  "assign_props target src = fold (\<lambda>(k, v). obj_put k v) src target"

section \<open>types.ts\<close>

record IGCredentials =
  username :: jsval
  password :: jsval
  apiKey :: jsval

record IGSession =
  securityToken :: "string option"
  clientSessionToken :: "string option"
  cst :: "string option"
  xSecurityToken :: "string option"
  accountId :: jsval
  accountType :: jsval
  lightstreamerEndpoint :: jsval
  authenticated :: bool
  authenticatedAt :: "nat option"

record IGError =
  errorCode :: jsval
  errorMessage :: jsval

record 'a IGResponse =
  success :: bool
  data :: 'a
  error :: "IGError option"
  debug :: jsval
  userMessage :: "string option"

section \<open>ig-client.ts\<close>

text \<open>
  The client holds its API key, its base URL and the default headers of its axios
  instance. \<open>sent\<close> is a ghost field: the requests the instance has issued, in order.
\<close>

record IGClient =
  client_apiKey :: jsval
  baseUrl :: string
  defaults :: headers
  sent :: "http_request list"

definition new_IGClient :: "jsval \<Rightarrow> string \<Rightarrow> IGClient" where
  "new_IGClient key url =
     \<lparr> client_apiKey = key, baseUrl = url,
       defaults = [(''Content-Type'', JStr ''application/json''),
                   (''Accept'', JStr ''application/json''),
                   (''X-IG-API-KEY'', key),
                   (''Version'', JStr ''2'')],
       sent = [] \<rparr>"

record request_config =
  cfg_method :: jsval
  cfg_url :: string
  cfg_headers :: headers
  cfg_params :: jsval
  cfg_data :: jsval

definition get_config :: "string \<Rightarrow> string \<Rightarrow> request_config" where
  "get_config url version =
     \<lparr> cfg_method = JStr ''GET'', cfg_url = url, cfg_headers = [(''Version'', JStr version)],
       cfg_params = JUndef, cfg_data = JUndef \<rparr>"

text \<open>The request an instance issues: its defaults, overridden by the call's headers.\<close>

definition make_request :: "IGClient \<Rightarrow> request_config \<Rightarrow> http_request" where
  "make_request c cfg =
     \<lparr> req_method = cfg_method cfg, req_baseURL = baseUrl c, req_url = cfg_url cfg,
       req_headers = assign_props (defaults c) (cfg_headers cfg),
       req_params = cfg_params cfg, req_data = cfg_data cfg \<rparr>"

definition axios_request :: "host \<Rightarrow> IGClient \<Rightarrow> request_config \<Rightarrow> http_outcome \<times> IGClient" where
  "axios_request h c cfg =
     (let req = make_request c cfg in (http h req, c\<lparr>sent := sent c @ [req]\<rparr>))"

definition friendlyMessage :: "nat option \<Rightarrow> string \<Rightarrow> string" where
  "friendlyMessage status userMsg =
     (if status = Some 401 \<or> status = Some 403
        then ''Authentication failed. Please check your credentials and try logging in again.''
      else if status = Some 404
        then ''The requested resource was not found. Please check the parameters.''
      else if status = Some 429
        then ''Rate limit exceeded. Please wait a moment before trying again.''
      else if status = Some 500 \<or> status = Some 502 \<or> status = Some 503
        then ''IG API is currently unavailable. Please try again later.''
      else userMsg)"

text \<open>
  \<open>upstream_error msg errorData\<close> is the pair \<open>errorCode\<close>, \<open>errorMessage\<close> that
  \<open>handleError\<close> computes from the body of the failed response.
\<close>

definition upstream_error :: "string \<Rightarrow> jsval \<Rightarrow> IGError" where
  "upstream_error msg errorData =
     (if truthy errorData then
        (case errorData of
           JObj kvs \<Rightarrow>
             (if map_of kvs ''errorCode'' \<noteq> None
              then \<lparr> errorCode = obj_get kvs ''errorCode'',
                     errorMessage = js_or (obj_get kvs ''errorMessage'') (JStr msg) \<rparr>
              else \<lparr> errorCode = JStr ''UNKNOWN_ERROR'', errorMessage = JStr msg \<rparr>)
         | JStr s \<Rightarrow> \<lparr> errorCode = JStr ''UNKNOWN_ERROR'', errorMessage = JStr s \<rparr>
         | _ \<Rightarrow> \<lparr> errorCode = JStr ''UNKNOWN_ERROR'', errorMessage = JStr msg \<rparr>)
      else \<lparr> errorCode = JStr ''UNKNOWN_ERROR'', errorMessage = JStr msg \<rparr>)"

definition opt_num :: "nat option \<Rightarrow> jsval" where
  "opt_num n = (case n of None \<Rightarrow> JUndef | Some k \<Rightarrow> JNum (of_nat k))"

definition opt_str :: "string option \<Rightarrow> jsval" where
  "opt_str s = (case s of None \<Rightarrow> JUndef | Some t \<Rightarrow> JStr t)"

text \<open>
  \<open>handleError\<close>. The first argument is the absent \<open>data\<close> of the result type. In
  \<open>debug\<close> an \<open>Error\<close> object stands as the empty object, which is all that
  \<open>JSON.stringify\<close> keeps of it.
\<close>

definition handleError :: "'a \<Rightarrow> thrown \<Rightarrow> string \<Rightarrow> 'a IGResponse" where
  "handleError nodata err userMsg =
     (case err of
        AxiosError axiosError \<Rightarrow>
          (let status = map_option resp_status (ae_response axiosError);
               errorData = (case ae_response axiosError of None \<Rightarrow> JUndef | Some r \<Rightarrow> resp_data r)
           in \<lparr> success = False, data = nodata,
                error = Some (upstream_error (ae_message axiosError) errorData),
                debug = JObj [(''status'', opt_num status),
                              (''statusText'', opt_str (map_option resp_statusText (ae_response axiosError))),
                              (''response'', errorData),
                              (''request'', JObj [(''url'', opt_str (map_option req_url (ae_config axiosError))),
                                                  (''method'', (case ae_config axiosError of None \<Rightarrow> JUndef | Some q \<Rightarrow> req_method q)),
                                                  (''data'', (case ae_config axiosError of None \<Rightarrow> JUndef | Some q \<Rightarrow> req_data q))])],
                userMessage = Some (friendlyMessage status userMsg) \<rparr>)
      | Thrown e \<Rightarrow>
          \<lparr> success = False, data = nodata,
            error = Some \<lparr> errorCode = JStr ''UNKNOWN_ERROR'',
                           errorMessage = JStr (if message_or_String e \<noteq> [] then message_or_String e
                                                else exn_String e) \<rparr>,
            debug = JObj [(''error'', (case e of JsError n m s \<Rightarrow> JObj [] | JsThrown s \<Rightarrow> JStr s))],
            userMessage = Some userMsg \<rparr>)"

definition ok_response :: "'a \<Rightarrow> string \<Rightarrow> 'a IGResponse" where
  "ok_response d msg =
     \<lparr> success = True, data = d, error = None, debug = JUndef, userMessage = Some msg \<rparr>"

text \<open>
  Every resource method has the same shape: build the request, send it, and turn the
  response into a result, all inside one \<open>try\<close> whose \<open>catch\<close> is \<open>handleError\<close> with
  the method's failure message. \<open>api_call\<close> is that shape; an exception while the request
  is built sends nothing.
\<close>

definition api_call ::
  "host \<Rightarrow> IGClient \<Rightarrow> string \<Rightarrow> (exn + request_config) \<Rightarrow>
   (http_response \<Rightarrow> exn + jsval IGResponse) \<Rightarrow> jsval IGResponse \<times> IGClient" where
  "api_call h c failMsg build on_response =
     (case build of
        Inl e \<Rightarrow> (handleError JUndef (Thrown e) failMsg, c)
      | Inr cfg \<Rightarrow>
          (let (out, c') = axios_request h c cfg
           in (case out of
                 Rejected err \<Rightarrow> (handleError JUndef err failMsg, c')
               | Resolved response \<Rightarrow>
                   (case on_response response of
                      Inl e \<Rightarrow> (handleError JUndef (Thrown e) failMsg, c')
                    | Inr result \<Rightarrow> (result, c')))))"

text \<open>The request of \<open>authenticate\<close>: \<open>POST /session\<close> with the identifier and the password.\<close>

definition session_config :: "IGCredentials \<Rightarrow> request_config" where
  "session_config credentials =
     \<lparr> cfg_method = JStr ''POST'', cfg_url = ''/session'',
       cfg_headers = [(''Version'', JStr ''2'')], cfg_params = JUndef,
       cfg_data = JObj [(''identifier'', username credentials),
                        (''password'', password credentials)] \<rparr>"

definition authenticate :: "host \<Rightarrow> IGClient \<Rightarrow> IGCredentials \<Rightarrow> IGSession option IGResponse \<times> IGClient" where
  "authenticate h c credentials =
     (let (out, c1) = axios_request h c (session_config credentials)
      in (case out of
            Rejected err \<Rightarrow> (handleError None err ''Authentication failed'', c1)
          | Resolved response \<Rightarrow>
              (let cst_h = map_of (resp_headers response) ''cst'';
                   xst_h = map_of (resp_headers response) ''x-security-token''
               in if \<not> truthy (opt_str cst_h) \<or> \<not> truthy (opt_str xst_h) then
                    (\<lparr> success = False, data = None,
                       error = Some \<lparr> errorCode = JStr ''AUTH_ERROR'',
                                      errorMessage = JStr ''Missing authentication tokens in response'' \<rparr>,
                       debug = JObj [(''status'', JNum (of_nat (resp_status response))),
                                     (''response'', JObj (map (\<lambda>(k, v). (k, JStr v)) (resp_headers response)))],
                       userMessage = Some ''Authentication failed: Invalid response from IG API'' \<rparr>, c1)
                  else
                    (case js_get (resp_data response) ''accountId'' of
                       Inl e \<Rightarrow> (handleError None (Thrown e) ''Authentication failed'', c1)
                     | Inr accId \<Rightarrow>
                         (ok_response
                            (Some \<lparr> securityToken = xst_h, clientSessionToken = cst_h,
                                    cst = cst_h, xSecurityToken = xst_h,
                                    accountId = accId,
                                    accountType = js_prop (resp_data response) ''accountType'',
                                    lightstreamerEndpoint = js_prop (resp_data response) ''lightstreamerEndpoint'',
                                    authenticated = True,
                                    authenticatedAt = Some (clock h) \<rparr>)
                            ''Successfully authenticated with IG API'',
                          c1\<lparr>defaults := obj_put ''X-SECURITY-TOKEN'' (opt_str xst_h)
                                           (obj_put ''CST'' (opt_str cst_h) (defaults c1))\<rparr>)))))"

definition client_setSession :: "IGClient \<Rightarrow> IGSession \<Rightarrow> IGClient" where
  "client_setSession c s =
     (if truthy (opt_str (cst s)) \<and> truthy (opt_str (xSecurityToken s))
      then c\<lparr>defaults := obj_put ''X-SECURITY-TOKEN'' (opt_str (xSecurityToken s))
                            (obj_put ''CST'' (opt_str (cst s)) (defaults c))\<rparr>
      else c)"

definition getAccounts :: "host \<Rightarrow> IGClient \<Rightarrow> jsval IGResponse \<times> IGClient" where
  "getAccounts h c =
     api_call h c ''Failed to retrieve account information''
       (Inr (get_config ''/accounts'' ''1''))
       (\<lambda>response. case js_get (resp_data response) ''accounts'' of
                      Inl e \<Rightarrow> Inl e
                    | Inr accounts \<Rightarrow> Inr (ok_response accounts ''Account information retrieved successfully''))"

definition getAccountBalance :: "host \<Rightarrow> IGClient \<Rightarrow> jsval \<Rightarrow> jsval IGResponse \<times> IGClient" where
  "getAccountBalance h c accId =
     api_call h c (''Failed to retrieve balance for account '' @ js_String h accId)
       (Inr (get_config (''/accounts/'' @ js_String h accId) ''1''))
       (\<lambda>response. Inr (ok_response (resp_data response)
                          (''Account balance for '' @ js_String h accId @ '' retrieved successfully'')))"

definition getPositions :: "host \<Rightarrow> IGClient \<Rightarrow> jsval IGResponse \<times> IGClient" where
  "getPositions h c =
     api_call h c ''Failed to retrieve positions''
       (Inr (get_config ''/positions'' ''2''))
       (\<lambda>response. case js_get (resp_data response) ''positions'' of
                      Inl e \<Rightarrow> Inl e
                    | Inr positions \<Rightarrow> Inr (ok_response positions ''Positions retrieved successfully''))"

text \<open>\<open>xs.filter((p) => p.status === 'OPEN')\<close>; the callback throws on an element that is
  \<open>null\<close> or \<open>undefined\<close>.\<close>

fun filter_open :: "jsval list \<Rightarrow> exn + jsval list" where
  "filter_open [] = Inr []"
| "filter_open (p # ps) =
     (case js_get p ''status'' of
        Inl e \<Rightarrow> Inl e
      | Inr s \<Rightarrow>
          (case filter_open ps of
             Inl e \<Rightarrow> Inl e
           | Inr qs \<Rightarrow> Inr (if s = JStr ''OPEN'' then p # qs else qs)))"

text \<open>\<open>response.data.positions?.filter(...) || []\<close>; only an array has a \<open>filter\<close> to call.\<close>

definition openPositions :: "jsval \<Rightarrow> exn + jsval" where
  "openPositions body =
     (case js_get body ''positions'' of
        Inl e \<Rightarrow> Inl e
      | Inr positions \<Rightarrow>
          (if nullish positions then Inr (JArr [])
           else (case positions of
                   JArr xs \<Rightarrow> (case filter_open xs of Inl e \<Rightarrow> Inl e | Inr ys \<Rightarrow> Inr (JArr ys))
                 | _ \<Rightarrow> Inl (type_error ''response.data.positions.filter is not a function''))))"

definition getOpenPositions :: "host \<Rightarrow> IGClient \<Rightarrow> jsval IGResponse \<times> IGClient" where
  "getOpenPositions h c =
     api_call h c ''Failed to retrieve open positions''
       (Inr (get_config ''/positions'' ''2''))
       (\<lambda>response. case openPositions (resp_data response) of
                      Inl e \<Rightarrow> Inl e
                    | Inr ps \<Rightarrow> Inr (ok_response ps ''Open positions retrieved successfully''))"

definition closePosition :: "host \<Rightarrow> IGClient \<Rightarrow> jsval \<Rightarrow> jsval \<Rightarrow> jsval \<Rightarrow> jsval IGResponse \<times> IGClient" where
  "closePosition h c dealId direction sz =
     api_call h c (''Failed to close position '' @ js_String h dealId)
       (Inr \<lparr> cfg_method = JStr ''DELETE'', cfg_url = ''/positions/otc'',
              cfg_headers = [(''Version'', JStr ''1'')], cfg_params = JUndef,
              cfg_data = JObj [(''dealId'', dealId),
                               (''direction'', (if direction = JStr ''BUY'' then JStr ''SELL'' else JStr ''BUY'')),
                               (''size'', sz),
                               (''orderType'', JStr ''MARKET''),
                               (''timeInForce'', JStr ''FILL_OR_KILL'')] \<rparr>)
       (\<lambda>response. Inr (ok_response (resp_data response)
                          (''Position '' @ js_String h dealId @ '' closed successfully'')))"

text \<open>The payload of \<open>placeOrder\<close>, its \<open>undefined\<close> values removed.\<close>

definition order_payload :: "jsval \<Rightarrow> (string \<times> jsval) list" where
  "order_payload request =
     filter (\<lambda>(k, v). v \<noteq> JUndef)
       [(''epic'', js_prop request ''epic''),
        (''expiry'', js_prop request ''expiry''),
        (''direction'', js_prop request ''direction''),
        (''size'', js_prop request ''size''),
        (''orderType'', js_or (js_prop request ''orderType'') (JStr ''MARKET'')),
        (''timeInForce'', js_or (js_prop request ''timeInForce'') (JStr ''EXECUTE_AND_ELIMINATE'')),
        (''level'', js_prop request ''level''),
        (''guaranteedStop'', js_or (js_prop request ''guaranteedStop'') (JBool False)),
        (''stopLevel'', js_prop request ''stopLevel''),
        (''stopDistance'', js_prop request ''stopDistance''),
        (''limitLevel'', js_prop request ''limitLevel''),
        (''limitDistance'', js_prop request ''limitDistance''),
        (''currencyCode'', js_prop request ''currencyCode''),
        (''forceOpen'', JBool (js_prop request ''forceOpen'' \<noteq> JBool False)),
        (''goodTillDate'', js_prop request ''goodTillDate'')]"

definition placeOrder :: "host \<Rightarrow> IGClient \<Rightarrow> jsval \<Rightarrow> jsval \<Rightarrow> jsval IGResponse \<times> IGClient" where
  "placeOrder h c request accId =
     api_call h c ''Failed to place order''
       (case js_get request ''epic'' of
          Inl e \<Rightarrow> Inl e
        | Inr epic \<Rightarrow>
            Inr \<lparr> cfg_method = JStr ''POST'', cfg_url = ''/positions/otc'',
                  cfg_headers = (''Version'', JStr ''2'')
                                # (if truthy accId then [(''IG-ACCOUNT-ID'', accId)] else []),
                  cfg_params = JUndef,
                  cfg_data = JObj (order_payload request) \<rparr>)
       (\<lambda>response.
          (let dealReference = js_or (js_prop (resp_data response) ''dealReference'')
                                     (js_prop (resp_data response) ''dealReferenceId'');
               dealId = js_prop (resp_data response) ''dealId''
           in Inr (ok_response (resp_data response)
                    (if truthy dealReference
                       then ''Order placed successfully. Deal reference: '' @ js_String h dealReference
                     else if truthy dealId
                       then ''Order placed successfully. Deal ID: '' @ js_String h dealId
                     else ''Order accepted but no deal reference received. Response: ''
                          @ json_text h (resp_data response)))))"

definition getWorkingOrders :: "host \<Rightarrow> IGClient \<Rightarrow> jsval IGResponse \<times> IGClient" where
  "getWorkingOrders h c =
     api_call h c ''Failed to retrieve working orders''
       (Inr (get_config ''/workingorders'' ''2''))
       (\<lambda>response. case js_get (resp_data response) ''workingOrders'' of
                      Inl e \<Rightarrow> Inl e
                    | Inr orders \<Rightarrow> Inr (ok_response orders ''Working orders retrieved successfully''))"

definition deleteWorkingOrder :: "host \<Rightarrow> IGClient \<Rightarrow> jsval \<Rightarrow> jsval IGResponse \<times> IGClient" where
  "deleteWorkingOrder h c dealId =
     api_call h c (''Failed to delete working order '' @ js_String h dealId)
       (Inr \<lparr> cfg_method = JStr ''DELETE'', cfg_url = ''/workingorders/otc/'' @ js_String h dealId,
              cfg_headers = [(''Version'', JStr ''2'')], cfg_params = JUndef, cfg_data = JUndef \<rparr>)
       (\<lambda>response. Inr (ok_response (resp_data response)
                          (''Working order '' @ js_String h dealId @ '' deleted successfully'')))"

definition getMarketData :: "host \<Rightarrow> IGClient \<Rightarrow> jsval \<Rightarrow> jsval IGResponse \<times> IGClient" where
  "getMarketData h c epic =
     api_call h c (''Failed to retrieve market data for '' @ js_String h epic)
       (Inr (get_config (''/markets/'' @ js_String h epic) ''3''))
       (\<lambda>response. Inr (ok_response (resp_data response)
                          (''Market data for '' @ js_String h epic @ '' retrieved successfully'')))"

definition searchInstruments :: "host \<Rightarrow> IGClient \<Rightarrow> jsval \<Rightarrow> jsval IGResponse \<times> IGClient" where
  "searchInstruments h c searchTerm =
     api_call h c (''Failed to search for instruments matching '' @ [CHR 0x22] @ js_String h searchTerm @ [CHR 0x22])
       (Inr ((get_config ''/markets'' ''1'')\<lparr>cfg_params := JObj [(''searchTerm'', searchTerm)]\<rparr>))
       (\<lambda>response. Inr (ok_response (resp_data response)
                          (''Search results for '' @ [CHR 0x22] @ js_String h searchTerm @ [CHR 0x22] @ '' retrieved successfully'')))"

definition getHistoricalPrices ::
  "host \<Rightarrow> IGClient \<Rightarrow> jsval \<Rightarrow> jsval \<Rightarrow> jsval \<Rightarrow> jsval \<Rightarrow> jsval \<Rightarrow> jsval IGResponse \<times> IGClient" where
  "getHistoricalPrices h c epic resolution from to pageSize =
     api_call h c (''Failed to retrieve historical prices for '' @ js_String h epic)
       (Inr ((get_config (''/prices/'' @ js_String h epic @ ''/'' @ js_String h resolution
                           @ ''/'' @ js_String h from @ ''/'' @ js_String h to) ''2'')
              \<lparr>cfg_params := JObj [(''pageSize'', (if pageSize = JUndef then JNum 100 else pageSize))]\<rparr>))
       (\<lambda>response. case js_get (resp_data response) ''prices'' of
                      Inl e \<Rightarrow> Inl e
                    | Inr prices \<Rightarrow>
                        Inr (ok_response (JObj [(''prices'', prices)])
                              (''Historical prices for '' @ js_String h epic @ '' retrieved successfully'')))"

definition getWatchlists :: "host \<Rightarrow> IGClient \<Rightarrow> jsval IGResponse \<times> IGClient" where
  "getWatchlists h c =
     api_call h c ''Failed to retrieve watchlists''
       (Inr (get_config ''/watchlists'' ''1''))
       (\<lambda>response. Inr (ok_response (resp_data response) ''Watchlists retrieved successfully''))"

definition getWatchlistMarkets :: "host \<Rightarrow> IGClient \<Rightarrow> jsval \<Rightarrow> jsval IGResponse \<times> IGClient" where
  "getWatchlistMarkets h c watchlistId =
     api_call h c (''Failed to retrieve watchlist '' @ js_String h watchlistId @ '' markets'')
       (Inr (get_config (''/watchlists/'' @ js_String h watchlistId) ''1''))
       (\<lambda>response. Inr (ok_response (resp_data response)
                          (''Watchlist '' @ js_String h watchlistId @ '' markets retrieved successfully'')))"

text \<open>
  \<open>callAPI\<close>. \<open>endpoint.startsWith('/')\<close> throws unless \<open>endpoint\<close> is a string; the
  defaulted parameter \<open>version\<close> is \<open>'1'\<close> when \<open>undefined\<close> is passed.
\<close>

definition callAPI ::
  "host \<Rightarrow> IGClient \<Rightarrow> jsval \<Rightarrow> jsval \<Rightarrow> jsval \<Rightarrow> jsval \<Rightarrow> jsval \<Rightarrow> jsval IGResponse \<times> IGClient" where
  "callAPI h c method endpoint payload version additionalHeaders =
     api_call h c (''Failed to call API endpoint: '' @ js_String h endpoint)
       (case js_get endpoint ''startsWith'' of
          Inl e \<Rightarrow> Inl e
        | Inr f \<Rightarrow>
            (case endpoint of
               JStr s \<Rightarrow>
                 Inr \<lparr> cfg_method = method,
                       cfg_url = (if take 1 s = ''/'' then s else ''/'' @ s),
                       cfg_headers = assign_props
                                       [(''Version'', (if version = JUndef then JStr ''1'' else version))]
                                       (spread_props h additionalHeaders),
                       cfg_params = (if truthy payload \<and> (method = JStr ''POST'' \<or> method = JStr ''PUT'')
                                       then JUndef
                                     else if truthy payload \<and> method = JStr ''GET'' then payload
                                     else JUndef),
                       cfg_data = (if truthy payload \<and> (method = JStr ''POST'' \<or> method = JStr ''PUT'')
                                     then payload else JUndef) \<rparr>
             | _ \<Rightarrow> Inl (type_error ''endpoint.startsWith is not a function'')))
       (\<lambda>response. Inr (ok_response (resp_data response)
                          (''API call to '' @ js_String h endpoint @ '' completed successfully'')))"

text \<open>The resource methods of the client, as one type of calls.\<close>

datatype resource_call =
    GetAccounts
  | GetAccountBalance jsval
  | GetPositions
  | GetOpenPositions
  | ClosePosition jsval jsval jsval
  | PlaceOrder jsval jsval
  | GetWorkingOrders
  | DeleteWorkingOrder jsval
  | GetMarketData jsval
  | SearchInstruments jsval
  | GetHistoricalPrices jsval jsval jsval jsval jsval
  | GetWatchlists
  | GetWatchlistMarkets jsval
  | CallAPI jsval jsval jsval jsval jsval

fun perform :: "host \<Rightarrow> IGClient \<Rightarrow> resource_call \<Rightarrow> jsval IGResponse \<times> IGClient" where
  "perform h c GetAccounts = getAccounts h c"
| "perform h c (GetAccountBalance a) = getAccountBalance h c a"
| "perform h c GetPositions = getPositions h c"
| "perform h c GetOpenPositions = getOpenPositions h c"
| "perform h c (ClosePosition d dir sz) = closePosition h c d dir sz"
| "perform h c (PlaceOrder r a) = placeOrder h c r a"
| "perform h c GetWorkingOrders = getWorkingOrders h c"
| "perform h c (DeleteWorkingOrder d) = deleteWorkingOrder h c d"
| "perform h c (GetMarketData e) = getMarketData h c e"
| "perform h c (SearchInstruments s) = searchInstruments h c s"
| "perform h c (GetHistoricalPrices e r f t p) = getHistoricalPrices h c e r f t p"
| "perform h c GetWatchlists = getWatchlists h c"
| "perform h c (GetWatchlistMarkets w) = getWatchlistMarkets h c w"
| "perform h c (CallAPI m e p v a) = callAPI h c m e p v a"

section \<open>session-manager.ts\<close>

record ConnectionSession =
  session :: "IGSession option"
  credentials :: "IGCredentials option"

text \<open>The module-level \<open>Map\<close> from connection identifiers to their stores.\<close>

type_synonym session_map = "string \<rightharpoonup> ConnectionSession"

text \<open>\<open>getSessionStore\<close> creates the store of a connection it does not know yet, so every
  operation of the manager, the reading ones too, returns the map.\<close>

definition getSessionStore :: "string \<Rightarrow> session_map \<Rightarrow> ConnectionSession \<times> session_map" where
  "getSessionStore connectionId m =
     (case m connectionId of
        None \<Rightarrow> (\<lparr> session = None, credentials = None \<rparr>,
                 m(connectionId \<mapsto> \<lparr> session = None, credentials = None \<rparr>))
      | Some store \<Rightarrow> (store, m))"

definition SessionManager_setSession :: "string \<Rightarrow> IGSession \<Rightarrow> session_map \<Rightarrow> session_map" where
  "SessionManager_setSession connectionId s m =
     (let (store, m1) = getSessionStore connectionId m
      in m1(connectionId \<mapsto> store\<lparr>session := Some s\<rparr>))"

definition SessionManager_getSession :: "string \<Rightarrow> session_map \<Rightarrow> IGSession option \<times> session_map" where
  "SessionManager_getSession connectionId m =
     (let (store, m1) = getSessionStore connectionId m in (session store, m1))"

definition setCredentials :: "string \<Rightarrow> IGCredentials \<Rightarrow> session_map \<Rightarrow> session_map" where
  "setCredentials connectionId creds m =
     (let (store, m1) = getSessionStore connectionId m
      in m1(connectionId \<mapsto> store\<lparr>credentials := Some creds\<rparr>))"

definition clearSession :: "string \<Rightarrow> session_map \<Rightarrow> session_map" where
  "clearSession connectionId m =
     (let (store, m1) = getSessionStore connectionId m
      in m1(connectionId \<mapsto> store\<lparr>session := None, credentials := None\<rparr>))"

text \<open>\<open>session?.authenticated === true\<close>.\<close>

definition isAuthenticated :: "string \<Rightarrow> session_map \<Rightarrow> bool \<times> session_map" where
  "isAuthenticated connectionId m =
     (let (s, m1) = SessionManager_getSession connectionId m
      in ((case s of None \<Rightarrow> False | Some sess \<Rightarrow> authenticated sess), m1))"

definition clearAll :: "session_map \<Rightarrow> session_map" where
  "clearAll m = Map.empty"

section \<open>index.ts: configuration and server state\<close>

record config =
  API_KEY :: string
  USERNAME :: string
  PASSWORD :: string
  API_URL :: string
  MCP_SERVER_API_KEY :: string
  REQUIRE_ENV_CREDENTIALS :: bool
  REQUIRE_AUTHENTICATION :: bool

text \<open>The constants read from \<open>process.env\<close> when the module is loaded.\<close>

definition env_or :: "(string \<rightharpoonup> string) \<Rightarrow> string \<Rightarrow> string \<Rightarrow> string" where
  "env_or env k d = (case env k of None \<Rightarrow> d | Some v \<Rightarrow> (if v = [] then d else v))"

definition load_config :: "(string \<rightharpoonup> string) \<Rightarrow> config" where
  "load_config env =
     \<lparr> API_KEY = env_or env ''IG_API_KEY'' [],
       USERNAME = env_or env ''IG_USERNAME'' [],
       PASSWORD = env_or env ''IG_PASSWORD'' [],
       API_URL = env_or env ''IG_API_URL'' ''https://api.ig.com/gateway/deal'',
       MCP_SERVER_API_KEY = env_or env ''MCP_SERVER_API_KEY'' [],
       REQUIRE_ENV_CREDENTIALS = (env ''REQUIRE_ENV_CREDENTIALS'' = Some ''true''),
       REQUIRE_AUTHENTICATION = (env ''REQUIRE_AUTHENTICATION'' \<noteq> Some ''false'') \<rparr>"

text \<open>
  The dispatcher reaches its client through \<open>await\<close>, and a promise may reject. The
  operations of a client are therefore a parameter whose every call returns a value or
  throws, together with the client it leaves behind: the repository's \<open>IGClient\<close> is
  one instance (\<open>ig_ops\<close>), a test double that throws is another.
\<close>

record 'c client_ops =
  construct :: "jsval \<Rightarrow> string \<Rightarrow> 'c"
  op_authenticate :: "'c \<Rightarrow> IGCredentials \<Rightarrow> (exn + IGSession option IGResponse) \<times> 'c"
  op_setSession :: "'c \<Rightarrow> IGSession \<Rightarrow> (exn + unit) \<times> 'c"
  op_request :: "'c \<Rightarrow> resource_call \<Rightarrow> (exn + jsval IGResponse) \<times> 'c"

definition ig_ops :: "host \<Rightarrow> IGClient client_ops" where
  "ig_ops h =
     \<lparr> construct = new_IGClient,
       op_authenticate = (\<lambda>c creds. let (r, c') = authenticate h c creds in (Inr r, c')),
       op_setSession = (\<lambda>c s. (Inr (), client_setSession c s)),
       op_request = (\<lambda>c call. let (r, c') = perform h c call in (Inr r, c')) \<rparr>"

datatype client_event =
    Authenticate IGCredentials
  | SetSession IGSession
  | Request resource_call

text \<open>
  The module-level state: the Session Store, the gatekeeping set, the client of each
  connection and the current connection identifier. \<open>calls\<close> is a ghost field: the
  client methods invoked so far, in order.
\<close>

record 'c server =
  sessions :: session_map
  authenticatedConnections :: "string set"
  clients :: "string \<rightharpoonup> 'c"
  currentConnectionId :: string
  calls :: "client_event list"

record content_item =
  item_type :: string
  item_text :: jsval

record envelope =
  content :: "content_item list"
  isError :: bool

text \<open>
  Every result of the dispatcher is one text item holding
  \<open>JSON.stringify(formatResponse(...), null, 2)\<close>; the text is kept as the document it
  encodes.
\<close>

definition tool_result :: "jsval \<Rightarrow> bool \<Rightarrow> envelope" where
  "tool_result response err =
     \<lparr> content = [\<lparr> item_type = ''text'', item_text = json_doc response \<rparr>], isError = err \<rparr>"

type_synonym args = "(string \<times> jsval) list option"

text \<open>\<open>args?.k\<close>.\<close>

definition arg :: "args \<Rightarrow> string \<Rightarrow> jsval" where
  "arg a k = (case a of None \<Rightarrow> JUndef | Some kvs \<Rightarrow> obj_get kvs k)"

text \<open>\<open>s || d\<close> on an optional string.\<close>

definition str_or :: "string option \<Rightarrow> string \<Rightarrow> string" where
  "str_or s d = (case s of None \<Rightarrow> d | Some t \<Rightarrow> (if t = [] then d else t))"

definition getClient :: "'c client_ops \<Rightarrow> config \<Rightarrow> string \<Rightarrow> 'c server \<Rightarrow> 'c \<times> 'c server" where
  "getClient ops cfg connectionId st =
     (case clients st connectionId of
        Some c \<Rightarrow> (c, st)
      | None \<Rightarrow>
          (let c = construct ops (JStr (if API_KEY cfg \<noteq> [] then API_KEY cfg else ''default-key''))
                     (API_URL cfg)
           in (c, st\<lparr>clients := (clients st)(connectionId \<mapsto> c)\<rparr>)))"

definition getSession :: "string \<Rightarrow> 'c server \<Rightarrow> IGSession option \<times> 'c server" where
  "getSession connectionId st =
     (let (s, m) = SessionManager_getSession connectionId (sessions st)
      in (s, st\<lparr>sessions := m\<rparr>))"

definition ensureAuthenticated :: "string \<Rightarrow> 'c server \<Rightarrow> string option \<times> 'c server" where
  "ensureAuthenticated connectionId st =
     (let (s, st1) = getSession connectionId st
      in ((case s of
             None \<Rightarrow> Some ''Not authenticated. Please use the login tool first.''
           | Some sess \<Rightarrow>
               (if \<not> authenticated sess
                then Some ''Not authenticated. Please use the login tool first.''
                else None)), st1))"

definition formatResponse :: "jsval \<Rightarrow> string option \<Rightarrow> jsval \<Rightarrow> jsval" where
  "formatResponse d userMsg dbg =
     JObj ([(''message'', JStr (str_or userMsg ''Operation completed successfully'')),
            (''data'', d)]
           @ (if truthy dbg \<and> is_object dbg then [(''debug'', dbg)] else []))"

definition validateApiKey :: "config \<Rightarrow> jsval \<Rightarrow> bool" where
  "validateApiKey cfg key =
     (if MCP_SERVER_API_KEY cfg = [] then True else key = JStr (MCP_SERVER_API_KEY cfg))"

definition isConnectionAuthenticated :: "config \<Rightarrow> string \<Rightarrow> 'c server \<Rightarrow> bool" where
  "isConnectionAuthenticated cfg connectionId st =
     (if \<not> REQUIRE_AUTHENTICATION cfg \<or> MCP_SERVER_API_KEY cfg = [] then True
      else connectionId \<in> authenticatedConnections st)"

definition authenticateConnection :: "config \<Rightarrow> string \<Rightarrow> jsval \<Rightarrow> 'c server \<Rightarrow> bool \<times> 'c server" where
  "authenticateConnection cfg connectionId key st =
     (if \<not> REQUIRE_AUTHENTICATION cfg \<or> MCP_SERVER_API_KEY cfg = [] then (True, st)
      else if validateApiKey cfg key
        then (True, st\<lparr>authenticatedConnections := insert connectionId (authenticatedConnections st)\<rparr>)
      else (False, st))"

definition allowToolCredentials :: "config \<Rightarrow> bool" where
  "allowToolCredentials cfg = (\<not> REQUIRE_ENV_CREDENTIALS cfg)"

section \<open>index.ts: executeToolCall\<close>

text \<open>
  A method call on the connection's client: the client object is the one stored in
  \<open>clients\<close> under the connection, so what the call does to it is seen there.
\<close>

definition call_client ::
  "('c \<Rightarrow> (exn + 'r) \<times> 'c) \<Rightarrow> client_event \<Rightarrow> string \<Rightarrow> 'c \<Rightarrow> 'c server \<Rightarrow> (exn + 'r) \<times> 'c \<times> 'c server" where
  "call_client method ev connectionId c st =
     (let (r, c') = method c
      in (r, c', st\<lparr>clients := (clients st)(connectionId \<mapsto> c'), calls := calls st @ [ev]\<rparr>))"

text \<open>\<open>case 'mcp_authenticate'\<close>.\<close>

definition tool_mcp_authenticate :: "config \<Rightarrow> args \<Rightarrow> string \<Rightarrow> 'c server \<Rightarrow> (exn + envelope) \<times> 'c server" where
  "tool_mcp_authenticate cfg a connectionId st =
     (let providedApiKey = js_or (arg a ''apiKey'') (JStr [])
      in if MCP_SERVER_API_KEY cfg = [] then
           (Inr (tool_result
                   (formatResponse (JObj [(''authenticated'', JBool True)])
                      (Some ''No API key required. Server is open for connections.'') JNull)
                   False), st)
         else
           (let (ok, st1) = authenticateConnection cfg connectionId providedApiKey st
            in if ok then
                 (Inr (tool_result
                         (formatResponse
                            (JObj [(''authenticated'', JBool True), (''connectionId'', JStr connectionId)])
                            (Some ''Successfully authenticated with MCP server. You can now use IG API tools.'')
                            JNull)
                         False), st1)
               else
                 (Inr (tool_result
                         (formatResponse JNull
                            (Some ''Authentication failed: Invalid API key. Please provide the correct MCP_SERVER_API_KEY.'')
                            (JObj [(''authenticated'', JBool False)]))
                         True), st1)))"

text \<open>
  The two places of \<open>case 'ig_login'\<close> that authenticate (with a new client when the call
  brings its own API key, with the connection's client otherwise) run the same code on
  the client they are given.
\<close>

definition login_with ::
  "'c client_ops \<Rightarrow> string \<Rightarrow> 'c \<Rightarrow> IGCredentials \<Rightarrow> 'c server \<Rightarrow> (exn + envelope) \<times> 'c server" where
  "login_with ops connectionId c creds st =
     (case call_client (\<lambda>x. op_authenticate ops x creds) (Authenticate creds) connectionId c st of
        (Inl e, c1, st1) \<Rightarrow> (Inl e, st1)
      | (Inr result, c1, st1) \<Rightarrow>
          (case (if success result then data result else None) of
             Some s \<Rightarrow>
               (let st2 = st1\<lparr>sessions := setCredentials connectionId creds
                                             (SessionManager_setSession connectionId s (sessions st1))\<rparr>
                in (case call_client (\<lambda>x. op_setSession ops x s) (SetSession s) connectionId c1 st2 of
                      (Inl e, c3, st3) \<Rightarrow> (Inl e, st3)
                    | (Inr u, c3, st3) \<Rightarrow>
                        (Inr (tool_result
                                (formatResponse
                                   (JObj [(''authenticated'', JBool True),
                                          (''accountId'', accountId s),
                                          (''accountType'', accountType s)])
                                   (Some (str_or (userMessage result) ''Successfully authenticated''))
                                   (JObj [(''sessionToken'', JStr ''***hidden***'')]))
                                False), st3)))
           | None \<Rightarrow>
               (Inr (tool_result
                       (formatResponse JNull
                          (Some (str_or (userMessage result) ''Authentication failed''))
                          (debug result))
                       True), st1)))"

definition tool_ig_login ::
  "'c client_ops \<Rightarrow> config \<Rightarrow> args \<Rightarrow> string \<Rightarrow> 'c \<Rightarrow> 'c server \<Rightarrow> (exn + envelope) \<times> 'c server" where
  "tool_ig_login ops cfg a connectionId client st =
     (let credentialsFromTool =
            (truthy (arg a ''username'') \<or> truthy (arg a ''password'') \<or> truthy (arg a ''apiKey''))
      in if REQUIRE_ENV_CREDENTIALS cfg \<and> credentialsFromTool then
           (Inr (tool_result
                   (formatResponse JNull
                      (Some ''SECURITY: This server requires credentials to be set via environment variables only. Credentials cannot be passed through tool calls. Set IG_USERNAME, IG_PASSWORD, and IG_API_KEY as environment variables.'')
                      (JObj [(''securityPolicy'', JStr ''REQUIRE_ENV_CREDENTIALS is enabled'')]))
                   True), st)
         else
           (let creds = \<lparr> username = js_or (arg a ''username'') (JStr (USERNAME cfg)),
                          password = js_or (arg a ''password'') (JStr (PASSWORD cfg)),
                          apiKey = js_or (arg a ''apiKey'') (JStr (API_KEY cfg)) \<rparr>
            in if \<not> truthy (username creds) \<or> \<not> truthy (password creds) \<or> \<not> truthy (apiKey creds) then
                 (Inr (tool_result
                         (formatResponse JNull
                            (Some ''Missing credentials. Please provide username, password, and apiKey, or set them via environment variables (IG_USERNAME, IG_PASSWORD, IG_API_KEY).'')
                            (JObj [(''provided'',
                                     JObj [(''username'', JBool (truthy (arg a ''username''))),
                                           (''password'', JBool (truthy (arg a ''password''))),
                                           (''apiKey'', JBool (truthy (arg a ''apiKey'')))]),
                                   (''envVarsSet'',
                                     JObj [(''username'', JBool (USERNAME cfg \<noteq> [])),
                                           (''password'', JBool (PASSWORD cfg \<noteq> [])),
                                           (''apiKey'', JBool (API_KEY cfg \<noteq> []))]),
                                   (''requireEnvCredentials'', JBool (REQUIRE_ENV_CREDENTIALS cfg))]))
                         True), st)
               else if truthy (arg a ''apiKey'') \<and> arg a ''apiKey'' \<noteq> JStr (API_KEY cfg) then
                 (let newClient = construct ops (apiKey creds) (API_URL cfg)
                  in login_with ops connectionId newClient creds
                       (st\<lparr>clients := (clients st)(connectionId \<mapsto> newClient)\<rparr>))
               else login_with ops connectionId client creds st))"

text \<open>\<open>case 'ig_logout'\<close>.\<close>

definition tool_ig_logout :: "string \<Rightarrow> 'c server \<Rightarrow> (exn + envelope) \<times> 'c server" where
  "tool_ig_logout connectionId st =
     (case ensureAuthenticated connectionId st of
        (Some authError, st1) \<Rightarrow>
          (Inr (tool_result (formatResponse JNull (Some authError) JUndef) True), st1)
      | (None, st1) \<Rightarrow>
          (Inr (tool_result
                  (formatResponse JNull (Some ''Successfully logged out and session cleared'') JUndef)
                  False),
           st1\<lparr>sessions := clearSession connectionId (sessions st1)\<rparr>))"

text \<open>
  The thirteen resource cases differ only in the method they call and in how they read
  its arguments from \<open>args\<close>; \<open>tool_call\<close> is that table.
\<close>

definition tool_call :: "string \<Rightarrow> args \<Rightarrow> resource_call option" where
  "tool_call name a =
     (if name = ''ig_get_accounts'' then Some GetAccounts
      else if name = ''ig_get_account_balance'' then Some (GetAccountBalance (arg a ''accountId''))
      else if name = ''ig_get_positions'' then Some GetPositions
      else if name = ''ig_get_open_positions'' then Some GetOpenPositions
      else if name = ''ig_close_position''
        then Some (ClosePosition (arg a ''dealId'') (arg a ''direction'') (arg a ''size''))
      else if name = ''ig_place_order''
        then Some (PlaceOrder
                     (JObj [(''epic'', arg a ''epic''),
                            (''expiry'', arg a ''expiry''),
                            (''direction'', arg a ''direction''),
                            (''size'', arg a ''size''),
                            (''orderType'', arg a ''orderType''),
                            (''level'', arg a ''level''),
                            (''timeInForce'', arg a ''timeInForce''),
                            (''goodTillDate'', arg a ''goodTillDate''),
                            (''guaranteedStop'', arg a ''guaranteedStop''),
                            (''stopLevel'', arg a ''stopLevel''),
                            (''stopDistance'', arg a ''stopDistance''),
                            (''limitLevel'', arg a ''limitLevel''),
                            (''limitDistance'', arg a ''limitDistance''),
                            (''currencyCode'', arg a ''currencyCode''),
                            (''forceOpen'', arg a ''forceOpen'')])
                     (arg a ''accountId''))
      else if name = ''ig_get_working_orders'' then Some GetWorkingOrders
      else if name = ''ig_delete_working_order'' then Some (DeleteWorkingOrder (arg a ''dealId''))
      else if name = ''ig_get_market_data'' then Some (GetMarketData (arg a ''epic''))
      else if name = ''ig_search_instruments'' then Some (SearchInstruments (arg a ''searchTerm''))
      else if name = ''ig_get_historical_prices''
        then Some (GetHistoricalPrices (arg a ''epic'') (arg a ''resolution'') (arg a ''from'')
                     (arg a ''to'') (js_or (arg a ''pageSize'') (JNum 100)))
      else if name = ''ig_get_watchlists'' then Some GetWatchlists
      else if name = ''ig_get_watchlist_markets'' then Some (GetWatchlistMarkets (arg a ''watchlistId''))
      else if name = ''ig_call_api''
        then Some (CallAPI (arg a ''method'') (arg a ''endpoint'') (arg a ''payload'')
                     (js_or (arg a ''version'') (JStr ''1'')) (arg a ''additionalHeaders''))
      else None)"

text \<open>
  A resource case: \<open>ensureAuthenticated\<close>, then \<open>client.setSession\<close> with the stored
  session, then the method, whose result is wrapped.
\<close>

definition resource_tool ::
  "'c client_ops \<Rightarrow> string \<Rightarrow> 'c \<Rightarrow> resource_call \<Rightarrow> 'c server \<Rightarrow> (exn + envelope) \<times> 'c server" where
  "resource_tool ops connectionId client call st =
     (case ensureAuthenticated connectionId st of
        (Some authError, st1) \<Rightarrow>
          (Inr (tool_result (formatResponse JNull (Some authError) JUndef) True), st1)
      | (None, st1) \<Rightarrow>
          (let (sess, st2) = getSession connectionId st1
           in (case (case sess of
                       None \<Rightarrow> (Inr (), client, st2)
                     | Some s \<Rightarrow> call_client (\<lambda>x. op_setSession ops x s) (SetSession s)
                                   connectionId client st2) of
                 (Inl e, c3, st3) \<Rightarrow> (Inl e, st3)
               | (Inr u, c3, st3) \<Rightarrow>
                   (case call_client (\<lambda>x. op_request ops x call) (Request call) connectionId c3 st3 of
                      (Inl e, c4, st4) \<Rightarrow> (Inl e, st4)
                    | (Inr result, c4, st4) \<Rightarrow>
                        (Inr (tool_result
                                (formatResponse (data result) (userMessage result) (debug result))
                                (\<not> success result)), st4)))))"

text \<open>The body of the \<open>try\<close> of \<open>executeToolCall\<close>: \<open>Inl\<close> is an exception it throws.\<close>

definition dispatch ::
  "'c client_ops \<Rightarrow> config \<Rightarrow> string \<Rightarrow> args \<Rightarrow> string \<Rightarrow> 'c \<Rightarrow> 'c server \<Rightarrow> (exn + envelope) \<times> 'c server" where
  "dispatch ops cfg name a connectionId client st =
     (if \<not> isConnectionAuthenticated cfg connectionId st \<and> name \<noteq> ''mcp_authenticate'' then
        (Inr (tool_result
                (formatResponse JNull
                   (Some ''Unauthorized: Connection not authenticated. Please call 'mcp_authenticate' first with your MCP_SERVER_API_KEY. This prevents unauthorized access to your IG account.'')
                   (JObj [(''securityPolicy'', JStr ''Authentication required''),
                          (''requiresAuthentication'', JBool (REQUIRE_AUTHENTICATION cfg)),
                          (''apiKeyRequired'', JBool (MCP_SERVER_API_KEY cfg \<noteq> []))]))
                True), st)
      else if name = ''mcp_authenticate'' then tool_mcp_authenticate cfg a connectionId st
      else if name = ''ig_login'' then tool_ig_login ops cfg a connectionId client st
      else if name = ''ig_logout'' then tool_ig_logout connectionId st
      else (case tool_call name a of
              Some call \<Rightarrow> resource_tool ops connectionId client call st
            | None \<Rightarrow>
                (Inr (tool_result (formatResponse JNull (Some (''Unknown tool: '' @ name)) JNull) True),
                 st)))"

text \<open>The \<open>catch\<close> of \<open>executeToolCall\<close>.\<close>

definition unexpected_error :: "exn \<Rightarrow> envelope" where
  "unexpected_error e =
     tool_result
       (formatResponse JNull (Some (''Unexpected error: '' @ message_or_String e))
          (JObj [(''error'', JStr (stack_or_String e))]))
       True"

definition executeToolCall ::
  "'c client_ops \<Rightarrow> config \<Rightarrow> string \<Rightarrow> args \<Rightarrow> 'c server \<Rightarrow> envelope \<times> 'c server" where
  "executeToolCall ops cfg name a st =
     (let connectionId = currentConnectionId st;
          (client, st0) = getClient ops cfg connectionId st
      in (case dispatch ops cfg name a connectionId client st0 of
            (Inr result, st1) \<Rightarrow> (result, st1)
          | (Inl e, st1) \<Rightarrow> (unexpected_error e, st1)))"

section \<open>ig-client.ts called with arguments of any type\<close>

text \<open>
  The resource methods declare the values they put into URLs and messages as strings,
  and the definitions of the section \<open>ig-client.ts\<close> are the methods on such
  arguments. The dispatcher passes what the caller sent: \<open>args?.accountId as string\<close>
  checks nothing at run time. The definitions below are the same methods on any
  argument: every interpolation of the source text is rendered where the source has it,
  in the \<open>try\<close> and in the \<open>catch\<close>.
\<close>

text \<open>
  A template literal converts the value it interpolates to a string. An object is
  converted by its \<open>toString\<close>, then by its \<open>valueOf\<close>. A value that was parsed from
  JSON holds no function: an object with an own property \<open>toString\<close> has nothing to
  call there, the inherited \<open>valueOf\<close> returns the object itself, and the conversion
  throws a TypeError. An array is converted by joining its converted elements.
\<close>

fun renders :: "jsval \<Rightarrow> bool" where
  "renders (JObj kvs) = (map_of kvs ''toString'' = None)"
| "renders (JArr xs) = (\<forall>x \<in> set xs. renders x)"
| "renders v = True"

definition conversion_error :: exn where
  "conversion_error = JsError ''TypeError'' ''Cannot convert object to primitive value'' []"

text \<open>\<open>${v}\<close> for any value: the text of \<open>js_String\<close>, or the TypeError.\<close>

definition render :: "host \<Rightarrow> jsval \<Rightarrow> exn + string" where
  "render h v = (if renders v then Inr (js_String h v) else Inl conversion_error)"

definition and_then :: "(exn + 'a) \<Rightarrow> ('a \<Rightarrow> exn + 'b) \<Rightarrow> exn + 'b" where
  "and_then r f = (case r of Inl e \<Rightarrow> Inl e | Inr x \<Rightarrow> f x)"

text \<open>
  The shape of a resource method once more, with its failure message as a computation:
  the message is built inside the \<open>catch\<close>, and an exception there is caught by
  nothing, so that the promise of the method is rejected (\<open>Inl\<close>).
\<close>

definition api_call_untyped ::
  "host \<Rightarrow> IGClient \<Rightarrow> (exn + string) \<Rightarrow> (exn + request_config) \<Rightarrow>
   (http_response \<Rightarrow> exn + jsval IGResponse) \<Rightarrow> (exn + jsval IGResponse) \<times> IGClient" where
  "api_call_untyped h c failMsg build on_response =
     (let (tried, c') =
            (case build of
               Inl e \<Rightarrow> (Inl (Thrown e), c)
             | Inr cfg \<Rightarrow>
                 (let (out, c1) = axios_request h c cfg
                  in (case out of
                        Rejected err \<Rightarrow> (Inl err, c1)
                      | Resolved response \<Rightarrow>
                          (case on_response response of
                             Inl e \<Rightarrow> (Inl (Thrown e), c1)
                           | Inr result \<Rightarrow> (Inr result, c1)))))
      in (case tried of
            Inr result \<Rightarrow> (Inr result, c')
          | Inl err \<Rightarrow>
              (case failMsg of
                 Inl e \<Rightarrow> (Inl e, c')
               | Inr msg \<Rightarrow> (Inr (handleError JUndef err msg), c'))))"

definition getAccountBalance_untyped :: "host \<Rightarrow> IGClient \<Rightarrow> jsval \<Rightarrow> (exn + jsval IGResponse) \<times> IGClient" where
  "getAccountBalance_untyped h c accId =
     api_call_untyped h c
       (map_sum id (\<lambda>s. ''Failed to retrieve balance for account '' @ s) (render h accId))
       (map_sum id (\<lambda>s. get_config (''/accounts/'' @ s) ''1'') (render h accId))
       (\<lambda>response. map_sum id
          (\<lambda>s. ok_response (resp_data response) (''Account balance for '' @ s @ '' retrieved successfully''))
          (render h accId))"

definition closePosition_untyped ::
  "host \<Rightarrow> IGClient \<Rightarrow> jsval \<Rightarrow> jsval \<Rightarrow> jsval \<Rightarrow> (exn + jsval IGResponse) \<times> IGClient" where
  "closePosition_untyped h c dealId direction sz =
     api_call_untyped h c
       (map_sum id (\<lambda>s. ''Failed to close position '' @ s) (render h dealId))
       (Inr \<lparr> cfg_method = JStr ''DELETE'', cfg_url = ''/positions/otc'',
              cfg_headers = [(''Version'', JStr ''1'')], cfg_params = JUndef,
              cfg_data = JObj [(''dealId'', dealId),
                               (''direction'', (if direction = JStr ''BUY'' then JStr ''SELL'' else JStr ''BUY'')),
                               (''size'', sz),
                               (''orderType'', JStr ''MARKET''),
                               (''timeInForce'', JStr ''FILL_OR_KILL'')] \<rparr>)
       (\<lambda>response. map_sum id
          (\<lambda>s. ok_response (resp_data response) (''Position '' @ s @ '' closed successfully''))
          (render h dealId))"

definition placeOrder_untyped ::
  "host \<Rightarrow> IGClient \<Rightarrow> jsval \<Rightarrow> jsval \<Rightarrow> (exn + jsval IGResponse) \<times> IGClient" where
  "placeOrder_untyped h c request accId =
     api_call_untyped h c (Inr ''Failed to place order'')
       (case js_get request ''epic'' of
          Inl e \<Rightarrow> Inl e
        | Inr epic \<Rightarrow>
            Inr \<lparr> cfg_method = JStr ''POST'', cfg_url = ''/positions/otc'',
                  cfg_headers = (''Version'', JStr ''2'')
                                # (if truthy accId then [(''IG-ACCOUNT-ID'', accId)] else []),
                  cfg_params = JUndef,
                  cfg_data = JObj (order_payload request) \<rparr>)
       (\<lambda>response.
          (let dealReference = js_or (js_prop (resp_data response) ''dealReference'')
                                     (js_prop (resp_data response) ''dealReferenceId'');
               dealId = js_prop (resp_data response) ''dealId''
           in map_sum id (ok_response (resp_data response))
                (if truthy dealReference
                   then map_sum id (\<lambda>s. ''Order placed successfully. Deal reference: '' @ s)
                          (render h dealReference)
                 else if truthy dealId
                   then map_sum id (\<lambda>s. ''Order placed successfully. Deal ID: '' @ s) (render h dealId)
                 else Inr (''Order accepted but no deal reference received. Response: ''
                           @ json_text h (resp_data response)))))"

definition deleteWorkingOrder_untyped :: "host \<Rightarrow> IGClient \<Rightarrow> jsval \<Rightarrow> (exn + jsval IGResponse) \<times> IGClient" where
  "deleteWorkingOrder_untyped h c dealId =
     api_call_untyped h c
       (map_sum id (\<lambda>s. ''Failed to delete working order '' @ s) (render h dealId))
       (map_sum id
          (\<lambda>s. \<lparr> cfg_method = JStr ''DELETE'', cfg_url = ''/workingorders/otc/'' @ s,
                  cfg_headers = [(''Version'', JStr ''2'')], cfg_params = JUndef, cfg_data = JUndef \<rparr>)
          (render h dealId))
       (\<lambda>response. map_sum id
          (\<lambda>s. ok_response (resp_data response) (''Working order '' @ s @ '' deleted successfully''))
          (render h dealId))"

definition getMarketData_untyped :: "host \<Rightarrow> IGClient \<Rightarrow> jsval \<Rightarrow> (exn + jsval IGResponse) \<times> IGClient" where
  "getMarketData_untyped h c epic =
     api_call_untyped h c
       (map_sum id (\<lambda>s. ''Failed to retrieve market data for '' @ s) (render h epic))
       (map_sum id (\<lambda>s. get_config (''/markets/'' @ s) ''3'') (render h epic))
       (\<lambda>response. map_sum id
          (\<lambda>s. ok_response (resp_data response) (''Market data for '' @ s @ '' retrieved successfully''))
          (render h epic))"

definition searchInstruments_untyped :: "host \<Rightarrow> IGClient \<Rightarrow> jsval \<Rightarrow> (exn + jsval IGResponse) \<times> IGClient" where
  "searchInstruments_untyped h c searchTerm =
     api_call_untyped h c
       (map_sum id (\<lambda>s. ''Failed to search for instruments matching '' @ [CHR 0x22] @ s @ [CHR 0x22])
          (render h searchTerm))
       (Inr ((get_config ''/markets'' ''1'')\<lparr>cfg_params := JObj [(''searchTerm'', searchTerm)]\<rparr>))
       (\<lambda>response. map_sum id
          (\<lambda>s. ok_response (resp_data response)
                 (''Search results for '' @ [CHR 0x22] @ s @ [CHR 0x22] @ '' retrieved successfully''))
          (render h searchTerm))"

definition getHistoricalPrices_untyped ::
  "host \<Rightarrow> IGClient \<Rightarrow> jsval \<Rightarrow> jsval \<Rightarrow> jsval \<Rightarrow> jsval \<Rightarrow> jsval \<Rightarrow> (exn + jsval IGResponse) \<times> IGClient" where
  "getHistoricalPrices_untyped h c epic resolution from to pageSize =
     api_call_untyped h c
       (map_sum id (\<lambda>s. ''Failed to retrieve historical prices for '' @ s) (render h epic))
       (and_then (render h epic) (\<lambda>e.
        and_then (render h resolution) (\<lambda>r.
        and_then (render h from) (\<lambda>f.
        and_then (render h to) (\<lambda>t.
          Inr ((get_config (''/prices/'' @ e @ ''/'' @ r @ ''/'' @ f @ ''/'' @ t) ''2'')
                 \<lparr>cfg_params := JObj [(''pageSize'', (if pageSize = JUndef then JNum 100 else pageSize))]\<rparr>))))))
       (\<lambda>response. and_then (js_get (resp_data response) ''prices'') (\<lambda>prices.
          map_sum id
            (\<lambda>s. ok_response (JObj [(''prices'', prices)])
                   (''Historical prices for '' @ s @ '' retrieved successfully''))
            (render h epic)))"

definition getWatchlistMarkets_untyped :: "host \<Rightarrow> IGClient \<Rightarrow> jsval \<Rightarrow> (exn + jsval IGResponse) \<times> IGClient" where
  "getWatchlistMarkets_untyped h c watchlistId =
     api_call_untyped h c
       (map_sum id (\<lambda>s. ''Failed to retrieve watchlist '' @ s @ '' markets'') (render h watchlistId))
       (map_sum id (\<lambda>s. get_config (''/watchlists/'' @ s) ''1'') (render h watchlistId))
       (\<lambda>response. map_sum id
          (\<lambda>s. ok_response (resp_data response) (''Watchlist '' @ s @ '' markets retrieved successfully''))
          (render h watchlistId))"

definition callAPI_untyped ::
  "host \<Rightarrow> IGClient \<Rightarrow> jsval \<Rightarrow> jsval \<Rightarrow> jsval \<Rightarrow> jsval \<Rightarrow> jsval \<Rightarrow> (exn + jsval IGResponse) \<times> IGClient" where
  "callAPI_untyped h c method endpoint payload version additionalHeaders =
     api_call_untyped h c
       (map_sum id (\<lambda>s. ''Failed to call API endpoint: '' @ s) (render h endpoint))
       (case js_get endpoint ''startsWith'' of
          Inl e \<Rightarrow> Inl e
        | Inr f \<Rightarrow>
            (case endpoint of
               JStr s \<Rightarrow>
                 Inr \<lparr> cfg_method = method,
                       cfg_url = (if take 1 s = ''/'' then s else ''/'' @ s),
                       cfg_headers = assign_props
                                       [(''Version'', (if version = JUndef then JStr ''1'' else version))]
                                       (spread_props h additionalHeaders),
                       cfg_params = (if truthy payload \<and> (method = JStr ''POST'' \<or> method = JStr ''PUT'')
                                       then JUndef
                                     else if truthy payload \<and> method = JStr ''GET'' then payload
                                     else JUndef),
                       cfg_data = (if truthy payload \<and> (method = JStr ''POST'' \<or> method = JStr ''PUT'')
                                     then payload else JUndef) \<rparr>
             | _ \<Rightarrow> Inl (type_error ''endpoint.startsWith is not a function'')))
       (\<lambda>response. map_sum id
          (\<lambda>s. ok_response (resp_data response) (''API call to '' @ s @ '' completed successfully''))
          (render h endpoint))"

text \<open>A method that interpolates nothing returns as before.\<close>

definition returned :: "'a \<times> IGClient \<Rightarrow> (exn + 'a) \<times> IGClient" where
  "returned p = (Inr (fst p), snd p)"

fun perform_untyped :: "host \<Rightarrow> IGClient \<Rightarrow> resource_call \<Rightarrow> (exn + jsval IGResponse) \<times> IGClient" where
  "perform_untyped h c GetAccounts = returned (getAccounts h c)"
| "perform_untyped h c (GetAccountBalance a) = getAccountBalance_untyped h c a"
| "perform_untyped h c GetPositions = returned (getPositions h c)"
| "perform_untyped h c GetOpenPositions = returned (getOpenPositions h c)"
| "perform_untyped h c (ClosePosition d dir sz) = closePosition_untyped h c d dir sz"
| "perform_untyped h c (PlaceOrder r a) = placeOrder_untyped h c r a"
| "perform_untyped h c GetWorkingOrders = returned (getWorkingOrders h c)"
| "perform_untyped h c (DeleteWorkingOrder d) = deleteWorkingOrder_untyped h c d"
| "perform_untyped h c (GetMarketData e) = getMarketData_untyped h c e"
| "perform_untyped h c (SearchInstruments s) = searchInstruments_untyped h c s"
| "perform_untyped h c (GetHistoricalPrices e r f t p) = getHistoricalPrices_untyped h c e r f t p"
| "perform_untyped h c GetWatchlists = returned (getWatchlists h c)"
| "perform_untyped h c (GetWatchlistMarkets w) = getWatchlistMarkets_untyped h c w"
| "perform_untyped h c (CallAPI m e p v a) = callAPI_untyped h c m e p v a"

text \<open>The repository's client as the dispatcher calls it.\<close>

definition ig_ops_untyped :: "host \<Rightarrow> IGClient client_ops" where
  "ig_ops_untyped h = (ig_ops h)\<lparr>op_request := perform_untyped h\<rparr>"

text \<open>The values a method interpolates from its arguments.\<close>

fun interpolated :: "resource_call \<Rightarrow> jsval list" where
  "interpolated (GetAccountBalance a) = [a]"
| "interpolated (ClosePosition d dir sz) = [d]"
| "interpolated (DeleteWorkingOrder d) = [d]"
| "interpolated (GetMarketData e) = [e]"
| "interpolated (SearchInstruments s) = [s]"
| "interpolated (GetHistoricalPrices e r f t p) = [e, r, f, t]"
| "interpolated (GetWatchlistMarkets w) = [w]"
| "interpolated (CallAPI m e p v a) = [e]"
| "interpolated call = []"

section \<open>index.ts: the promise of executeToolCall\<close>

text \<open>
  \<open>executeToolCall\<close> above is the envelope the \<open>async\<close> function returns. Its
  promise could also be rejected: \<open>executeToolCall_promise\<close> is the function with its
  \<open>try\<close> and its \<open>catch\<close> written out, \<open>Inl\<close> being a rejection.
\<close>

definition try_catch :: "(exn + 'a) \<times> 's \<Rightarrow> (exn \<Rightarrow> 's \<Rightarrow> (exn + 'a) \<times> 's) \<Rightarrow> (exn + 'a) \<times> 's" where
  "try_catch body handler =
     (case body of (Inl e, s) \<Rightarrow> handler e s | (Inr v, s) \<Rightarrow> (Inr v, s))"

definition executeToolCall_promise ::
  "'c client_ops \<Rightarrow> config \<Rightarrow> string \<Rightarrow> args \<Rightarrow> 'c server \<Rightarrow> (exn + envelope) \<times> 'c server" where
  "executeToolCall_promise ops cfg name a st =
     (let connectionId = currentConnectionId st;
          (client, st0) = getClient ops cfg connectionId st
      in try_catch (dispatch ops cfg name a connectionId client st0)
           (\<lambda>e st1. (Inr (unexpected_error e), st1)))"

section \<open>Reading an envelope\<close>

text \<open>The decoded JSON content of an envelope, and its fields.\<close>

definition decoded :: "envelope \<Rightarrow> jsval" where
  "decoded env = (case content env of [item] \<Rightarrow> item_text item | _ \<Rightarrow> JUndef)"

text \<open>\<open>None\<close> is a field that is absent from the decoded object.\<close>

definition decoded_field :: "envelope \<Rightarrow> string \<Rightarrow> jsval option" where
  "decoded_field env k = (case decoded env of JObj kvs \<Rightarrow> map_of kvs k | _ \<Rightarrow> None)"

definition data_absent_or_null :: "envelope \<Rightarrow> bool" where
  "data_absent_or_null env =
     (decoded_field env ''data'' = None \<or> decoded_field env ''data'' = Some JNull)"

text \<open>The Session Store holds a session of the connection whose flag is set.\<close>

definition holds_authenticated_session :: "string \<Rightarrow> session_map \<Rightarrow> bool" where
  "holds_authenticated_session connectionId m =
     (case m connectionId of
        None \<Rightarrow> False
      | Some store \<Rightarrow> (case session store of None \<Rightarrow> False | Some s \<Rightarrow> authenticated s))"

section \<open>Vocabulary of the statements\<close>

text \<open>A token of a response header that is there and not empty.\<close>

definition header_token :: "http_response \<Rightarrow> string \<Rightarrow> string option" where
  "header_token r k =
     (case map_of (resp_headers r) k of
        None \<Rightarrow> None
      | Some t \<Rightarrow> (if t = [] then None else Some t))"

text \<open>
  The \<open>positions\<close> field of a positions response as \<open>Position[]\<close> declares it: missing,
  or an array none of whose elements is \<open>null\<close> or \<open>undefined\<close>. \<open>positions_of\<close> are
  the positions the field lists, none when it is missing.
\<close>

fun wellformed_positions :: "jsval \<Rightarrow> bool" where
  "wellformed_positions JUndef = True"
| "wellformed_positions JNull = True"
| "wellformed_positions (JArr ps) = list_all (\<lambda>p. \<not> nullish p) ps"
| "wellformed_positions v = False"

fun positions_of :: "jsval \<Rightarrow> jsval list" where
  "positions_of (JArr ps) = ps"
| "positions_of v = []"

definition error_has_no_data :: "envelope \<Rightarrow> bool" where
  "error_has_no_data env = (isError env \<longrightarrow> data_absent_or_null env)"

definition success_has_data :: "envelope \<Rightarrow> bool" where
  "success_has_data env = (\<not> isError env \<longrightarrow> \<not> data_absent_or_null env)"

section \<open>Sample inputs\<close>

text \<open>
  A broker that answers the session and positions endpoints with tokens, an account and
  three positions, and refuses everything else with HTTP 401; one that refuses
  everything with a given status; one whose session response lacks a token. A
  configuration with environment credentials and no gatekeeping secret, its strict
  variant, and one with a secret whose check is switched off. A server that has served
  no call yet, and a client double whose calls throw.
\<close>

definition sample_body :: jsval where
  "sample_body =
     JObj [(''accountId'', JStr ''ABC123''), (''accountType'', JStr ''CFD''),
           (''positions'',
              JArr [JObj [(''dealId'', JStr ''D1''), (''status'', JStr ''OPEN'')],
                    JObj [(''dealId'', JStr ''D2''), (''status'', JStr ''CLOSED'')],
                    JObj [(''dealId'', JStr ''D3''), (''status'', JStr ''OPEN'')]])]"

definition sample_response :: http_response where
  "sample_response =
     \<lparr> resp_status = 200, resp_statusText = ''OK'',
       resp_headers = [(''cst'', ''CST-1''), (''x-security-token'', ''XST-1'')],
       resp_data = sample_body \<rparr>"

definition sample_failure :: "nat \<Rightarrow> axios_error" where
  "sample_failure n =
     \<lparr> ae_message = ''Request failed'',
       ae_response = Some \<lparr> resp_status = n, resp_statusText = ''Error'', resp_headers = [],
                             resp_data = JObj [(''errorCode'', JStr ''error.upstream'')] \<rparr>,
       ae_config = None \<rparr>"

definition sample_host :: host where
  "sample_host =
     \<lparr> http = (\<lambda>req. if req_url req = ''/session'' \<or> req_url req = ''/positions''
                      then Resolved sample_response
                      else Rejected (AxiosError (sample_failure 401))),
       clock = 0, to_string = (\<lambda>v. []), json_text = (\<lambda>v. []) \<rparr>"

definition refusing_host :: "nat \<Rightarrow> host" where
  "refusing_host n = sample_host\<lparr>http := (\<lambda>req. Rejected (AxiosError (sample_failure n)))\<rparr>"

definition tokenless_host :: host where
  "tokenless_host =
     sample_host\<lparr>http := (\<lambda>req. Resolved (sample_response\<lparr>resp_headers := [(''cst'', ''CST-1'')]\<rparr>))\<rparr>"

definition sample_config :: config where
  "sample_config =
     \<lparr> API_KEY = ''key'', USERNAME = ''user'', PASSWORD = ''secret'',
       API_URL = ''https://api.ig.com/gateway/deal'', MCP_SERVER_API_KEY = [],
       REQUIRE_ENV_CREDENTIALS = False, REQUIRE_AUTHENTICATION = True \<rparr>"

definition strict_config :: config where
  "strict_config = sample_config\<lparr>REQUIRE_ENV_CREDENTIALS := True\<rparr>"

definition keyed_config :: config where
  "keyed_config = sample_config\<lparr>MCP_SERVER_API_KEY := ''s3cret'', REQUIRE_AUTHENTICATION := False\<rparr>"

definition sample_client :: IGClient where
  "sample_client = new_IGClient (JStr ''key'') ''https://api.ig.com/gateway/deal''"

definition sample_credentials :: IGCredentials where
  "sample_credentials = \<lparr> username = JStr ''user'', password = JStr ''secret'', apiKey = JStr ''key'' \<rparr>"

definition fresh_server :: "'c server" where
  "fresh_server =
     \<lparr> sessions = Map.empty, authenticatedConnections = {}, clients = Map.empty,
       currentConnectionId = ''conn_1'', calls = [] \<rparr>"

text \<open>The server after \<open>ig_login\<close> without arguments.\<close>

definition logged_in :: "IGClient server" where
  "logged_in =
     snd (executeToolCall (ig_ops sample_host) sample_config ''ig_login'' None fresh_server)"

text \<open>
  An argument that no template literal can render, a stored session, and a server that
  holds it.
\<close>

definition unrenderable :: jsval where
  "unrenderable = JObj [(''toString'', JNum 1)]"

definition sample_session :: IGSession where
  "sample_session =
     \<lparr> securityToken = Some ''XST-1'', clientSessionToken = Some ''CST-1'', cst = Some ''CST-1'',
       xSecurityToken = Some ''XST-1'', accountId = JStr ''ABC123'', accountType = JStr ''CFD'',
       lightstreamerEndpoint = JUndef, authenticated = True, authenticatedAt = Some 0 \<rparr>"

definition signed_in :: "'c server" where
  "signed_in =
     fresh_server\<lparr>sessions := [''conn_1'' \<mapsto> \<lparr> session = Some sample_session, credentials = None \<rparr>]\<rparr>"

definition failing_ops :: "unit client_ops" where
  "failing_ops =
     \<lparr> construct = (\<lambda>key url. ()),
       op_authenticate = (\<lambda>c creds. (Inl (JsError ''Error'' ''socket hang up'' ''Error: socket hang up''), c)),
       op_setSession = (\<lambda>c s. (Inr (), c)),
       op_request = (\<lambda>c call. (Inl (JsThrown ''boom''), c)) \<rparr>"

section \<open>Unfolding the model\<close>

lemmas client_defs = api_call_def axios_request_def make_request_def get_config_def
  handleError_def ok_response_def friendlyMessage_def upstream_error_def opt_num_def opt_str_def
  session_config_def authenticate_def client_setSession_def getAccounts_def getPositions_def
  getOpenPositions_def openPositions_def closePosition_def js_get_def js_or_def obj_get_def
  assign_props_def new_IGClient_def js_String_def type_error_def

lemmas server_defs = executeToolCall_def dispatch_def getClient_def tool_ig_login_def
  tool_ig_logout_def tool_mcp_authenticate_def login_with_def resource_tool_def tool_call_def
  call_client_def ensureAuthenticated_def getSession_def SessionManager_getSession_def
  SessionManager_setSession_def setCredentials_def clearSession_def getSessionStore_def
  isAuthenticated_def isConnectionAuthenticated_def authenticateConnection_def validateApiKey_def
  formatResponse_def tool_result_def arg_def str_or_def ig_ops_def unexpected_error_def
  decoded_def decoded_field_def data_absent_or_null_def holds_authenticated_session_def

lemmas sample_defs = sample_body_def sample_response_def sample_failure_def sample_host_def
  refusing_host_def tokenless_host_def sample_config_def strict_config_def keyed_config_def
  sample_client_def sample_credentials_def fresh_server_def

lemmas untyped_defs = renders.simps conversion_error_def render_def and_then_def api_call_untyped_def
  getAccountBalance_untyped_def returned_def ig_ops_untyped_def try_catch_def
  executeToolCall_promise_def unrenderable_def sample_session_def signed_in_def failing_ops_def

section \<open>The dispatcher refuses a connection without a broker session\<close>

lemma getClient_keeps:
  "sessions (snd (getClient ops cfg conn st)) = sessions st"
  "calls (snd (getClient ops cfg conn st)) = calls st"
  "authenticatedConnections (snd (getClient ops cfg conn st)) = authenticatedConnections st"
  "currentConnectionId (snd (getClient ops cfg conn st)) = currentConnectionId st"
  by (simp_all add: getClient_def Let_def split: option.splits)

lemma ensureAuthenticated_calls:
  "calls (snd (ensureAuthenticated conn st)) = calls st"
  by (simp add: ensureAuthenticated_def getSession_def SessionManager_getSession_def
      getSessionStore_def Let_def split: option.splits prod.splits)

lemma ensureAuthenticated_iff:
  "fst (ensureAuthenticated conn st) = None \<longleftrightarrow> holds_authenticated_session conn (sessions st)"
  by (simp add: ensureAuthenticated_def getSession_def SessionManager_getSession_def
      getSessionStore_def holds_authenticated_session_def Let_def split: option.splits prod.splits)

lemma isError_tool_result [simp]: "isError (tool_result r b) = b"
  by (simp add: tool_result_def)

lemma resource_tool_unauthenticated:
  assumes "\<not> holds_authenticated_session conn (sessions st)"
  shows "\<exists>env st'. resource_tool ops conn c call st = (Inr env, st') \<and> isError env \<and> calls st' = calls st"
proof -
  obtain r st1 where e: "ensureAuthenticated conn st = (r, st1)"
    by (cases "ensureAuthenticated conn st")
  with assms ensureAuthenticated_iff[of conn st] obtain msg where "r = Some msg"
    by (cases r) auto
  moreover from e ensureAuthenticated_calls[of conn st] have "calls st1 = calls st" by simp
  ultimately show ?thesis using e by (simp add: resource_tool_def)
qed

lemma tool_ig_logout_unauthenticated:
  assumes "\<not> holds_authenticated_session conn (sessions st)"
  shows "\<exists>env st'. tool_ig_logout conn st = (Inr env, st') \<and> isError env \<and> calls st' = calls st"
proof -
  obtain r st1 where e: "ensureAuthenticated conn st = (r, st1)"
    by (cases "ensureAuthenticated conn st")
  with assms ensureAuthenticated_iff[of conn st] obtain msg where "r = Some msg"
    by (cases r) auto
  moreover from e ensureAuthenticated_calls[of conn st] have "calls st1 = calls st" by simp
  ultimately show ?thesis using e by (simp add: tool_ig_logout_def)
qed

lemma dispatch_unauthenticated:
  assumes "name \<noteq> ''ig_login''" "name \<noteq> ''mcp_authenticate''"
      and "\<not> holds_authenticated_session conn (sessions st)"
  shows "\<exists>env st'. dispatch ops cfg name a conn c st = (Inr env, st') \<and> isError env \<and> calls st' = calls st"
  using assms resource_tool_unauthenticated[OF assms(3), of ops c]
    tool_ig_logout_unauthenticated[OF assms(3)]
  by (auto simp add: dispatch_def split: option.splits)

text \<open>
  C1. For every tool name other than \<open>ig_login\<close> and \<open>mcp_authenticate\<close>, and for every
  client, configuration, argument record and server state: when the Session Store holds
  no session of the current connection whose \<open>authenticated\<close> flag is true,
  \<open>executeToolCall\<close> returns an envelope with \<open>isError = true\<close> and invokes no method of
  the client (the log of client calls is what it was). Constructing the connection's
  client in \<open>getClient\<close> is not a method call and sends nothing.
\<close>

theorem C1_no_session_no_broker_call:
  assumes "name \<noteq> ''ig_login''" "name \<noteq> ''mcp_authenticate''"
      and "\<not> holds_authenticated_session (currentConnectionId st) (sessions st)"
  shows "isError (fst (executeToolCall ops cfg name a st))
       \<and> calls (snd (executeToolCall ops cfg name a st)) = calls st"
proof -
  obtain c st0 where g: "getClient ops cfg (currentConnectionId st) st = (c, st0)"
    by (cases "getClient ops cfg (currentConnectionId st) st")
  with getClient_keeps[of ops cfg "currentConnectionId st" st]
  have k: "sessions st0 = sessions st" "calls st0 = calls st" by simp_all
  from assms(3) k have "\<not> holds_authenticated_session (currentConnectionId st) (sessions st0)"
    by simp
  from dispatch_unauthenticated[OF assms(1,2) this, of ops cfg a c]
  obtain env st' where "dispatch ops cfg name a (currentConnectionId st) c st0 = (Inr env, st')"
    "isError env" "calls st' = calls st0" by blast
  with g k show ?thesis by (simp add: executeToolCall_def)
qed

theorem C1_witness:
  "''ig_get_accounts'' \<noteq> ''ig_login'' \<and> ''ig_get_accounts'' \<noteq> ''mcp_authenticate''
   \<and> \<not> holds_authenticated_session (currentConnectionId fresh_server) (sessions fresh_server)
   \<and> isError (fst (executeToolCall (ig_ops sample_host) sample_config ''ig_get_accounts'' None fresh_server))
   \<and> calls (snd (executeToolCall (ig_ops sample_host) sample_config ''ig_get_accounts'' None fresh_server)) = []"
  using C1_no_session_no_broker_call
    [of "''ig_get_accounts''" fresh_server "ig_ops sample_host" sample_config None]
  by (simp add: fresh_server_def holds_authenticated_session_def)

section \<open>An error envelope carries no data\<close>

lemma decoded_data:
  "decoded_field (tool_result (formatResponse d m dbg) b) ''data''
   = (if d = JUndef then None else Some (json_doc d))"
  by (simp add: decoded_field_def decoded_def tool_result_def formatResponse_def)

lemma data_absent_or_null_result:
  "d = JUndef \<or> d = JNull \<Longrightarrow> data_absent_or_null (tool_result (formatResponse d m dbg) b)"
  by (auto simp add: data_absent_or_null_def decoded_data)

lemma data_present_result:
  "\<not> data_absent_or_null (tool_result (formatResponse (JObj kvs) m dbg) b)"
  by (simp add: data_absent_or_null_def decoded_data)

lemma handleError_no_data:
  "\<not> success (handleError nodata err msg)" "data (handleError nodata err msg) = nodata"
  by (simp_all add: handleError_def Let_def split: thrown.splits)

lemma api_call_failure:
  assumes "\<And>r res. k r = Inr res \<Longrightarrow> success res"
      and "\<not> success (fst (api_call h c msg build k))"
  shows "data (fst (api_call h c msg build k)) = JUndef"
  using assms
  by (auto simp add: api_call_def axios_request_def Let_def handleError_no_data
      split: sum.splits http_outcome.splits)

lemma ok_success [simp]: "success (ok_response d m)"
  by (simp add: ok_response_def)

lemma perform_failure:
  assumes "\<not> success (fst (perform h c call))"
  shows "data (fst (perform h c call)) = JUndef"
proof (cases call)
  case GetAccounts
  with assms show ?thesis unfolding GetAccounts perform.simps getAccounts_def
    by (intro api_call_failure) (auto split: sum.splits)
next
  case (GetAccountBalance a)
  with assms show ?thesis unfolding GetAccountBalance perform.simps getAccountBalance_def
    by (intro api_call_failure) (auto split: sum.splits)
next
  case GetPositions
  with assms show ?thesis unfolding GetPositions perform.simps getPositions_def
    by (intro api_call_failure) (auto split: sum.splits)
next
  case GetOpenPositions
  with assms show ?thesis unfolding GetOpenPositions perform.simps getOpenPositions_def
    by (intro api_call_failure) (auto split: sum.splits)
next
  case (ClosePosition d dir sz)
  with assms show ?thesis unfolding ClosePosition perform.simps closePosition_def
    by (intro api_call_failure) (auto split: sum.splits)
next
  case (PlaceOrder r a)
  with assms show ?thesis unfolding PlaceOrder perform.simps placeOrder_def
    by (intro api_call_failure) (auto simp add: Let_def split: sum.splits)
next
  case GetWorkingOrders
  with assms show ?thesis unfolding GetWorkingOrders perform.simps getWorkingOrders_def
    by (intro api_call_failure) (auto split: sum.splits)
next
  case (DeleteWorkingOrder d)
  with assms show ?thesis unfolding DeleteWorkingOrder perform.simps deleteWorkingOrder_def
    by (intro api_call_failure) (auto split: sum.splits)
next
  case (GetMarketData e)
  with assms show ?thesis unfolding GetMarketData perform.simps getMarketData_def
    by (intro api_call_failure) (auto split: sum.splits)
next
  case (SearchInstruments s)
  with assms show ?thesis unfolding SearchInstruments perform.simps searchInstruments_def
    by (intro api_call_failure) (auto split: sum.splits)
next
  case (GetHistoricalPrices e r f t p)
  with assms show ?thesis unfolding GetHistoricalPrices perform.simps getHistoricalPrices_def
    by (intro api_call_failure) (auto split: sum.splits)
next
  case GetWatchlists
  with assms show ?thesis unfolding GetWatchlists perform.simps getWatchlists_def
    by (intro api_call_failure) (auto split: sum.splits)
next
  case (GetWatchlistMarkets w)
  with assms show ?thesis unfolding GetWatchlistMarkets perform.simps getWatchlistMarkets_def
    by (intro api_call_failure) (auto split: sum.splits)
next
  case (CallAPI m e p v a)
  with assms show ?thesis unfolding CallAPI perform.simps callAPI_def
    by (intro api_call_failure) (auto split: sum.splits)
qed

lemma sound_result:
  "(b \<Longrightarrow> d = JUndef \<or> d = JNull) \<Longrightarrow> error_has_no_data (tool_result (formatResponse d m dbg) b)"
  by (auto simp add: error_has_no_data_def data_absent_or_null_result)

lemma resource_tool_sound:
  assumes "resource_tool (ig_ops h) conn c call st = (Inr env, st1)"
  shows "error_has_no_data env"
proof -
  have "\<And>x. \<not> success (fst (perform h x call)) \<Longrightarrow> data (fst (perform h x call)) = JUndef"
    by (rule perform_failure)
  then have p: "\<And>x r x'. perform h x call = (r, x') \<Longrightarrow> \<not> success r \<Longrightarrow> data r = JUndef"
    by (metis fst_conv)
  from assms show ?thesis
    unfolding resource_tool_def call_client_def ig_ops_def Let_def
    by (auto split: prod.splits option.splits sum.splits intro!: sound_result dest: p)
qed

lemma login_with_sound:
  assumes "login_with ops conn c creds st = (Inr env, st1)"
  shows "error_has_no_data env \<and> success_has_data env"
  using assms unfolding login_with_def call_client_def Let_def success_has_data_def
  by (auto split: prod.splits option.splits sum.splits if_splits
      intro!: sound_result simp add: data_present_result)

lemma tool_ig_login_sound:
  assumes "tool_ig_login ops cfg a conn c st = (Inr env, st1)"
  shows "error_has_no_data env \<and> success_has_data env"
proof -
  let ?creds = "\<lparr> username = js_or (arg a ''username'') (JStr (USERNAME cfg)),
                  password = js_or (arg a ''password'') (JStr (PASSWORD cfg)),
                  apiKey = js_or (arg a ''apiKey'') (JStr (API_KEY cfg)) \<rparr>"
  let ?new = "construct ops (apiKey ?creds) (API_URL cfg)"
  from assms have "isError env \<and> error_has_no_data env
      \<or> login_with ops conn c ?creds st = (Inr env, st1)
      \<or> login_with ops conn ?new ?creds (st\<lparr>clients := (clients st)(conn \<mapsto> ?new)\<rparr>)
          = (Inr env, st1)"
    unfolding tool_ig_login_def Let_def by (auto split: if_splits intro!: sound_result)
  then show ?thesis
    by (auto simp add: success_has_data_def dest: login_with_sound)
qed

lemma tool_ig_logout_sound:
  assumes "tool_ig_logout conn st = (Inr env, st1)"
  shows "error_has_no_data env"
  using assms unfolding tool_ig_logout_def
  by (auto split: prod.splits option.splits intro!: sound_result)

lemma tool_mcp_authenticate_sound:
  assumes "tool_mcp_authenticate cfg a conn st = (Inr env, st1)"
  shows "error_has_no_data env \<and> success_has_data env"
  using assms unfolding tool_mcp_authenticate_def Let_def success_has_data_def
  by (auto split: prod.splits if_splits intro!: sound_result simp add: data_present_result)

lemma dispatch_sound:
  assumes "dispatch (ig_ops h) cfg name a conn c st = (Inr env, st1)"
  shows "error_has_no_data env"
proof -
  from assms have "isError env \<and> error_has_no_data env
      \<or> tool_mcp_authenticate cfg a conn st = (Inr env, st1)
      \<or> tool_ig_login (ig_ops h) cfg a conn c st = (Inr env, st1)
      \<or> tool_ig_logout conn st = (Inr env, st1)
      \<or> (\<exists>call. resource_tool (ig_ops h) conn c call st = (Inr env, st1))"
    unfolding dispatch_def by (auto split: if_splits option.splits intro!: sound_result)
  then show ?thesis
    by (auto dest: tool_mcp_authenticate_sound tool_ig_login_sound tool_ig_logout_sound
        resource_tool_sound)
qed

lemma dispatch_login_sound:
  assumes "dispatch ops cfg name a conn c st = (Inr env, st1)"
      and "name = ''ig_login'' \<or> name = ''mcp_authenticate''"
  shows "success_has_data env"
proof -
  from assms have "isError env
      \<or> tool_mcp_authenticate cfg a conn st = (Inr env, st1)
      \<or> tool_ig_login ops cfg a conn c st = (Inr env, st1)"
    unfolding dispatch_def by (auto split: if_splits)
  then show ?thesis
    by (auto simp add: success_has_data_def
        dest: tool_mcp_authenticate_sound tool_ig_login_sound)
qed

text \<open>
  C2 (as amended). For every envelope that \<open>executeToolCall\<close> produces with the
  repository's client: if \<open>isError\<close> is true, the decoded \<open>data\<close> field is absent or
  \<open>null\<close>; and for \<open>ig_login\<close> and \<open>mcp_authenticate\<close> the converse holds too. The
  converse is not claimed for the other tools: a successful \<open>ig_logout\<close> answers
  \<open>isError = false\<close> with \<open>data = null\<close>, and a resource tool forwards whatever data
  the broker's body holds, which may be none.
\<close>

theorem C2_error_implies_no_data:
  "(isError (fst (executeToolCall (ig_ops h) cfg name a st))
      \<longrightarrow> data_absent_or_null (fst (executeToolCall (ig_ops h) cfg name a st)))
   \<and> (name = ''ig_login'' \<or> name = ''mcp_authenticate''
      \<longrightarrow> data_absent_or_null (fst (executeToolCall (ig_ops h) cfg name a st))
      \<longrightarrow> isError (fst (executeToolCall (ig_ops h) cfg name a st)))"
proof -
  obtain c st0 where g: "getClient (ig_ops h) cfg (currentConnectionId st) st = (c, st0)"
    by (cases "getClient (ig_ops h) cfg (currentConnectionId st) st")
  obtain r st1 where d: "dispatch (ig_ops h) cfg name a (currentConnectionId st) c st0 = (r, st1)"
    by (cases "dispatch (ig_ops h) cfg name a (currentConnectionId st) c st0")
  show ?thesis
  proof (cases r)
    case (Inl e)
    with g d show ?thesis
      by (simp add: executeToolCall_def unexpected_error_def data_absent_or_null_result)
  next
    case (Inr env)
    with g d have e: "fst (executeToolCall (ig_ops h) cfg name a st) = env"
      by (simp add: executeToolCall_def)
    from d Inr dispatch_sound[of h cfg name a "currentConnectionId st" c st0 env st1]
    have "isError env \<longrightarrow> data_absent_or_null env"
      by (simp add: error_has_no_data_def)
    moreover
    from d Inr dispatch_login_sound[of "ig_ops h" cfg name a "currentConnectionId st" c st0 env st1]
    have "name = ''ig_login'' \<or> name = ''mcp_authenticate''
          \<longrightarrow> data_absent_or_null env \<longrightarrow> isError env"
      by (auto simp add: success_has_data_def)
    ultimately show ?thesis unfolding e by blast
  qed
qed

theorem C2_witness:
  "isError (fst (executeToolCall (ig_ops sample_host) sample_config ''ig_get_accounts'' None logged_in))
   \<and> data_absent_or_null (fst (executeToolCall (ig_ops sample_host) sample_config ''ig_get_accounts'' None logged_in))
   \<and> data_absent_or_null (fst (executeToolCall (ig_ops tokenless_host) sample_config ''ig_login'' None fresh_server))
   \<and> isError (fst (executeToolCall (ig_ops tokenless_host) sample_config ''ig_login'' None fresh_server))"
  using C2_error_implies_no_data [of sample_host sample_config "''ig_get_accounts''" None logged_in]
    C2_error_implies_no_data [of tokenless_host sample_config "''ig_login''" None fresh_server]
  by (simp add: logged_in_def server_defs client_defs sample_defs Let_def)

text \<open>
  The claim as stated fails: after a login, \<open>ig_logout\<close> answers with \<open>isError = false\<close>
  and a decoded \<open>data\<close> field that is \<open>null\<close>.
\<close>

theorem C2_counterexample:
  "\<not> isError (fst (executeToolCall (ig_ops sample_host) sample_config ''ig_logout'' None logged_in))
   \<and> decoded_field (fst (executeToolCall (ig_ops sample_host) sample_config ''ig_logout'' None logged_in)) ''data''
       = Some JNull
   \<and> data_absent_or_null (fst (executeToolCall (ig_ops sample_host) sample_config ''ig_logout'' None logged_in))"
  by (simp add: logged_in_def server_defs client_defs sample_defs Let_def)

section \<open>Strict-credential mode\<close>

text \<open>
  C3. With \<open>REQUIRE_ENV_CREDENTIALS\<close> on, an \<open>ig_login\<close> call whose arguments carry a
  username, a password or an API key (a value that JavaScript takes for true: the
  code's \<open>credentialsFromTool\<close>) returns an envelope with \<open>isError = true\<close> and
  invokes no method of the client, whatever the configured environment credentials and
  whatever the client.
\<close>

theorem C3_strict_mode_rejects_tool_credentials:
  assumes "REQUIRE_ENV_CREDENTIALS cfg"
      and "truthy (arg a ''username'') \<or> truthy (arg a ''password'') \<or> truthy (arg a ''apiKey'')"
  shows "isError (fst (executeToolCall ops cfg ''ig_login'' a st))
       \<and> calls (snd (executeToolCall ops cfg ''ig_login'' a st)) = calls st"
proof -
  obtain c st0 where g: "getClient ops cfg (currentConnectionId st) st = (c, st0)"
    by (cases "getClient ops cfg (currentConnectionId st) st")
  with getClient_keeps(2)[of ops cfg "currentConnectionId st" st]
  have k: "calls st0 = calls st" by simp
  have "\<exists>env. dispatch ops cfg ''ig_login'' a (currentConnectionId st) c st0 = (Inr env, st0) \<and> isError env"
    using assms by (auto simp add: dispatch_def tool_ig_login_def)
  with g k show ?thesis by (auto simp add: executeToolCall_def)
qed

theorem C3_witness:
  "REQUIRE_ENV_CREDENTIALS strict_config
   \<and> truthy (arg (Some [(''username'', JStr ''bob'')]) ''username'')
   \<and> API_KEY strict_config \<noteq> [] \<and> USERNAME strict_config \<noteq> [] \<and> PASSWORD strict_config \<noteq> []
   \<and> isError (fst (executeToolCall (ig_ops sample_host) strict_config ''ig_login''
                     (Some [(''username'', JStr ''bob'')]) fresh_server))
   \<and> calls (snd (executeToolCall (ig_ops sample_host) strict_config ''ig_login''
                     (Some [(''username'', JStr ''bob'')]) fresh_server)) = []"
  using C3_strict_mode_rejects_tool_credentials
    [of strict_config "Some [(''username'', JStr ''bob'')]" "ig_ops sample_host" fresh_server]
  by (simp add: strict_config_def sample_config_def arg_def obj_get_def fresh_server_def)

section \<open>Closing a position\<close>

text \<open>
  C4. For every deal identifier and size, \<open>closePosition\<close> with direction \<open>BUY\<close> sends
  the broker exactly one request, whose body has direction \<open>SELL\<close> and the given size,
  and with direction \<open>SELL\<close> one request whose body has direction \<open>BUY\<close> and the given
  size.
\<close>

theorem C4_closePosition_inverts_direction:
  "sent (snd (closePosition h c dealId (JStr ''BUY'') sz))
     = sent c @ [last (sent (snd (closePosition h c dealId (JStr ''BUY'') sz)))]
   \<and> js_prop (req_data (last (sent (snd (closePosition h c dealId (JStr ''BUY'') sz))))) ''direction''
       = JStr ''SELL''
   \<and> js_prop (req_data (last (sent (snd (closePosition h c dealId (JStr ''BUY'') sz))))) ''size'' = sz
   \<and> sent (snd (closePosition h c dealId (JStr ''SELL'') sz))
     = sent c @ [last (sent (snd (closePosition h c dealId (JStr ''SELL'') sz)))]
   \<and> js_prop (req_data (last (sent (snd (closePosition h c dealId (JStr ''SELL'') sz))))) ''direction''
       = JStr ''BUY''
   \<and> js_prop (req_data (last (sent (snd (closePosition h c dealId (JStr ''SELL'') sz))))) ''size'' = sz"
  by (simp add: closePosition_def api_call_def axios_request_def make_request_def Let_def obj_get_def
      split: http_outcome.splits sum.splits)

theorem C4_witness:
  "map (\<lambda>q. (req_method q, req_url q, req_data q))
     (sent (snd (closePosition sample_host sample_client (JStr ''D1'') (JStr ''BUY'') (JNum (1 / 100)))))
   = [(JStr ''DELETE'', ''/positions/otc'',
       JObj [(''dealId'', JStr ''D1''), (''direction'', JStr ''SELL''), (''size'', JNum (1 / 100)),
             (''orderType'', JStr ''MARKET''), (''timeInForce'', JStr ''FILL_OR_KILL'')])]
   \<and> js_prop (req_data (last (sent (snd (closePosition sample_host sample_client (JStr ''D1'')
                 (JStr ''SELL'') (JNum (1 / 100))))))) ''direction'' = JStr ''BUY''"
  using C4_closePosition_inverts_direction
    [of sample_host sample_client "JStr ''D1''" "JNum (1 / 100)"]
  by (simp add: client_defs sample_defs Let_def)

section \<open>Login, logout and the Session Store\<close>

lemma isAuthenticated_holds:
  "fst (isAuthenticated conn m) = holds_authenticated_session conn m"
  by (simp add: isAuthenticated_def SessionManager_getSession_def getSessionStore_def
      holds_authenticated_session_def Let_def split: option.splits)

lemma authenticate_success:
  assumes "success (fst (authenticate h c creds))"
  shows "\<exists>s. data (fst (authenticate h c creds)) = Some s \<and> authenticated s"
  using assms
  by (auto simp add: authenticate_def axios_request_def handleError_def ok_response_def Let_def
      split: http_outcome.splits thrown.splits sum.splits if_splits)

lemma holds_after_store:
  "holds_authenticated_session conn (setCredentials conn creds (SessionManager_setSession conn s m))
   = authenticated s"
  by (simp add: holds_authenticated_session_def setCredentials_def SessionManager_setSession_def
      getSessionStore_def Let_def split: option.splits)

lemma login_with_ok:
  assumes "login_with (ig_ops h) conn c creds st = (Inr env, st1)" "\<not> isError env"
  shows "holds_authenticated_session conn (sessions st1)
       \<and> authenticatedConnections st1 = authenticatedConnections st
       \<and> currentConnectionId st1 = currentConnectionId st"
proof -
  obtain r c' where a: "authenticate h c creds = (r, c')" by (cases "authenticate h c creds")
  show ?thesis
  proof (cases "success r")
    case True
    with a authenticate_success[of h c creds] obtain s where s: "data r = Some s" "authenticated s"
      by auto
    with assms a True holds_after_store[of conn creds s "sessions st"] show ?thesis
      by (auto simp add: login_with_def call_client_def ig_ops_def Let_def)
  next
    case False
    with assms a show ?thesis
      by (auto simp add: login_with_def call_client_def ig_ops_def Let_def)
  qed
qed

lemma tool_ig_login_ok:
  assumes "tool_ig_login (ig_ops h) cfg a conn c st = (Inr env, st1)" "\<not> isError env"
  shows "holds_authenticated_session conn (sessions st1)
       \<and> authenticatedConnections st1 = authenticatedConnections st
       \<and> currentConnectionId st1 = currentConnectionId st"
proof -
  let ?creds = "\<lparr> username = js_or (arg a ''username'') (JStr (USERNAME cfg)),
                  password = js_or (arg a ''password'') (JStr (PASSWORD cfg)),
                  apiKey = js_or (arg a ''apiKey'') (JStr (API_KEY cfg)) \<rparr>"
  let ?new = "construct (ig_ops h) (apiKey ?creds) (API_URL cfg)"
  from assms have "login_with (ig_ops h) conn c ?creds st = (Inr env, st1)
      \<or> login_with (ig_ops h) conn ?new ?creds (st\<lparr>clients := (clients st)(conn \<mapsto> ?new)\<rparr>)
          = (Inr env, st1)"
    unfolding tool_ig_login_def Let_def by (auto split: if_splits)
  then show ?thesis
  proof
    assume "login_with (ig_ops h) conn c ?creds st = (Inr env, st1)"
    from login_with_ok[OF this assms(2)] show ?thesis .
  next
    assume "login_with (ig_ops h) conn ?new ?creds (st\<lparr>clients := (clients st)(conn \<mapsto> ?new)\<rparr>)
          = (Inr env, st1)"
    from login_with_ok[OF this assms(2)] show ?thesis by simp
  qed
qed

lemma gate_cong:
  "authenticatedConnections st' = authenticatedConnections st \<Longrightarrow>
   isConnectionAuthenticated cfg conn st' = isConnectionAuthenticated cfg conn st"
  by (simp add: isConnectionAuthenticated_def)

lemma dispatch_login:
  "isConnectionAuthenticated cfg conn st \<Longrightarrow>
   dispatch ops cfg ''ig_login'' a conn c st = tool_ig_login ops cfg a conn c st"
  by (simp add: dispatch_def)

lemma dispatch_logout:
  "isConnectionAuthenticated cfg conn st \<Longrightarrow>
   dispatch ops cfg ''ig_logout'' a conn c st = tool_ig_logout conn st"
  by (simp add: dispatch_def)

lemma dispatch_gate_closed:
  "\<not> isConnectionAuthenticated cfg conn st \<Longrightarrow> name \<noteq> ''mcp_authenticate'' \<Longrightarrow>
   \<exists>env. dispatch ops cfg name a conn c st = (Inr env, st) \<and> isError env"
  by (simp add: dispatch_def)

lemma executeToolCall_login_ok:
  assumes "executeToolCall (ig_ops h) cfg ''ig_login'' a st = (env, st1)" "\<not> isError env"
  shows "holds_authenticated_session (currentConnectionId st) (sessions st1)
       \<and> authenticatedConnections st1 = authenticatedConnections st
       \<and> currentConnectionId st1 = currentConnectionId st
       \<and> isConnectionAuthenticated cfg (currentConnectionId st) st"
proof -
  obtain c st0 where g: "getClient (ig_ops h) cfg (currentConnectionId st) st = (c, st0)"
    by (cases "getClient (ig_ops h) cfg (currentConnectionId st) st")
  with getClient_keeps[of "ig_ops h" cfg "currentConnectionId st" st]
  have k: "authenticatedConnections st0 = authenticatedConnections st"
    "currentConnectionId st0 = currentConnectionId st" by simp_all
  obtain r st' where d: "dispatch (ig_ops h) cfg ''ig_login'' a (currentConnectionId st) c st0 = (r, st')"
    by (cases "dispatch (ig_ops h) cfg ''ig_login'' a (currentConnectionId st) c st0")
  from assms g d have r: "r = Inr env" "st' = st1"
    by (auto simp add: executeToolCall_def unexpected_error_def split: sum.splits)
  have gate: "isConnectionAuthenticated cfg (currentConnectionId st) st0"
  proof (rule ccontr)
    assume "\<not> isConnectionAuthenticated cfg (currentConnectionId st) st0"
    from dispatch_gate_closed[OF this, of "''ig_login''" "ig_ops h" a c] d r assms(2)
    show False by simp
  qed
  with d r have "tool_ig_login (ig_ops h) cfg a (currentConnectionId st) c st0 = (Inr env, st1)"
    by (simp add: dispatch_login)
  from tool_ig_login_ok[OF this assms(2)] k gate gate_cong[OF k(1), of cfg "currentConnectionId st"]
  show ?thesis by simp
qed

lemma logout_clears:
  assumes "holds_authenticated_session (currentConnectionId st) (sessions st)"
      and "isConnectionAuthenticated cfg (currentConnectionId st) st"
  shows "\<not> isError (fst (executeToolCall ops cfg ''ig_logout'' a st))
       \<and> \<not> holds_authenticated_session (currentConnectionId st)
             (sessions (snd (executeToolCall ops cfg ''ig_logout'' a st)))"
proof -
  obtain c st0 where g: "getClient ops cfg (currentConnectionId st) st = (c, st0)"
    by (cases "getClient ops cfg (currentConnectionId st) st")
  with getClient_keeps[of ops cfg "currentConnectionId st" st]
  have k: "sessions st0 = sessions st" "authenticatedConnections st0 = authenticatedConnections st"
    by simp_all
  obtain r st1 where e: "ensureAuthenticated (currentConnectionId st) st0 = (r, st1)"
    by (cases "ensureAuthenticated (currentConnectionId st) st0")
  with assms(1) k ensureAuthenticated_iff[of "currentConnectionId st" st0] have r: "r = None" by simp
  have "\<not> holds_authenticated_session (currentConnectionId st)
          (clearSession (currentConnectionId st) (sessions st1))"
    by (simp add: holds_authenticated_session_def clearSession_def getSessionStore_def Let_def
        split: option.splits)
  moreover from assms(2) gate_cong[OF k(2), of cfg "currentConnectionId st"]
  have "dispatch ops cfg ''ig_logout'' a (currentConnectionId st) c st0
        = tool_ig_logout (currentConnectionId st) st0"
    by (simp add: dispatch_logout)
  ultimately show ?thesis using g e r
    by (simp add: executeToolCall_def tool_ig_logout_def)
qed

text \<open>
  C5. When \<open>ig_login\<close> succeeds for the current connection with the repository's client
  (the envelope is not an error, which takes a broker answer with both tokens), then
  \<open>SessionManager.isAuthenticated\<close> is true for that connection in the resulting state;
  an \<open>ig_logout\<close> that follows succeeds and leaves \<open>isAuthenticated\<close> false; and
  \<open>isAuthenticated\<close> is true exactly when the store holds a session of the connection
  whose \<open>authenticated\<close> flag is true.
\<close>

theorem C5_login_then_logout:
  assumes "executeToolCall (ig_ops h) cfg ''ig_login'' a st = (env, st1)" and "\<not> isError env"
  shows "fst (isAuthenticated (currentConnectionId st) (sessions st1))
       \<and> \<not> isError (fst (executeToolCall (ig_ops h) cfg ''ig_logout'' a' st1))
       \<and> \<not> fst (isAuthenticated (currentConnectionId st)
                  (sessions (snd (executeToolCall (ig_ops h) cfg ''ig_logout'' a' st1))))
       \<and> (\<forall>conn m. fst (isAuthenticated conn m)
             \<longleftrightarrow> (\<exists>store s. m conn = Some store \<and> session store = Some s \<and> authenticated s))"
proof -
  from executeToolCall_login_ok[OF assms]
  have l: "holds_authenticated_session (currentConnectionId st) (sessions st1)"
    "authenticatedConnections st1 = authenticatedConnections st"
    "currentConnectionId st1 = currentConnectionId st"
    "isConnectionAuthenticated cfg (currentConnectionId st) st" by simp_all
  with gate_cong[OF l(2), of cfg "currentConnectionId st"]
  have "isConnectionAuthenticated cfg (currentConnectionId st1) st1" by simp
  with l logout_clears[of st1 cfg "ig_ops h" a']
  have "\<not> isError (fst (executeToolCall (ig_ops h) cfg ''ig_logout'' a' st1))"
    "\<not> holds_authenticated_session (currentConnectionId st)
          (sessions (snd (executeToolCall (ig_ops h) cfg ''ig_logout'' a' st1)))" by simp_all
  moreover have "\<forall>conn m. fst (isAuthenticated conn m)
             \<longleftrightarrow> (\<exists>store s. m conn = Some store \<and> session store = Some s \<and> authenticated s)"
    by (auto simp add: isAuthenticated_holds holds_authenticated_session_def split: option.splits)
  ultimately show ?thesis using l(1) by (simp add: isAuthenticated_holds)
qed

theorem C5_witness:
  "\<not> isError (fst (executeToolCall (ig_ops sample_host) sample_config ''ig_login'' None fresh_server))
   \<and> \<not> fst (isAuthenticated ''conn_1'' (sessions (fresh_server :: IGClient server)))
   \<and> fst (isAuthenticated ''conn_1'' (sessions logged_in))
   \<and> \<not> fst (isAuthenticated ''conn_1''
              (sessions (snd (executeToolCall (ig_ops sample_host) sample_config ''ig_logout'' None logged_in))))"
  using C5_login_then_logout
    [of sample_host sample_config None fresh_server
        "fst (executeToolCall (ig_ops sample_host) sample_config ''ig_login'' None fresh_server)"
        logged_in None]
  by (simp add: logged_in_def server_defs client_defs sample_defs Let_def)

section \<open>Open positions\<close>

lemma filter_open_wellformed:
  "list_all (\<lambda>p. \<not> nullish p) ps \<Longrightarrow>
   filter_open ps = Inr (filter (\<lambda>p. js_prop p ''status'' = JStr ''OPEN'') ps)"
  by (induction ps) (auto simp add: js_get_def)

lemma openPositions_wellformed:
  assumes "\<not> nullish body" "wellformed_positions (js_prop body ''positions'')"
  shows "openPositions body
         = Inr (JArr (filter (\<lambda>p. js_prop p ''status'' = JStr ''OPEN'')
                        (positions_of (js_prop body ''positions''))))"
proof (cases "js_prop body ''positions''")
  case (JArr ps)
  with assms filter_open_wellformed[of ps] show ?thesis
    by (simp add: openPositions_def js_get_def)
qed (use assms in \<open>simp_all add: openPositions_def js_get_def\<close>)

text \<open>
  C6. For every answer of the broker to the positions request whose body is a value
  other than \<open>null\<close> and whose \<open>positions\<close> field is missing or an array of positions
  (no element \<open>null\<close> or \<open>undefined\<close>): \<open>getPositions\<close> and \<open>getOpenPositions\<close> both succeed,
  and the data of \<open>getOpenPositions\<close> is the list of those positions of
  \<open>getPositions\<close>'s result whose \<open>status\<close> is \<open>'OPEN'\<close>, in the same order; it is the
  empty list when the field is missing.
\<close>

theorem C6_open_positions_are_filtered_positions:
  assumes "http h (make_request c (get_config ''/positions'' ''2'')) = Resolved r"
      and "\<not> nullish (resp_data r)"
      and "wellformed_positions (js_prop (resp_data r) ''positions'')"
  shows "success (fst (getPositions h c)) \<and> success (fst (getOpenPositions h c))
       \<and> data (fst (getPositions h c)) = js_prop (resp_data r) ''positions''
       \<and> data (fst (getOpenPositions h c))
           = JArr (filter (\<lambda>p. js_prop p ''status'' = JStr ''OPEN'')
                     (positions_of (data (fst (getPositions h c)))))"
  using assms openPositions_wellformed[OF assms(2,3)]
  by (simp add: getPositions_def getOpenPositions_def api_call_def axios_request_def Let_def
      js_get_def ok_response_def)

theorem C6_witness:
  "http sample_host (make_request sample_client (get_config ''/positions'' ''2'')) = Resolved sample_response
   \<and> \<not> nullish (resp_data sample_response)
   \<and> wellformed_positions (js_prop (resp_data sample_response) ''positions'')
   \<and> length (positions_of (data (fst (getPositions sample_host sample_client)))) = 3
   \<and> data (fst (getOpenPositions sample_host sample_client))
       = JArr [JObj [(''dealId'', JStr ''D1''), (''status'', JStr ''OPEN'')],
               JObj [(''dealId'', JStr ''D3''), (''status'', JStr ''OPEN'')]]"
  using C6_open_positions_are_filtered_positions [of sample_host sample_client sample_response]
  by (simp add: client_defs sample_defs Let_def)

section \<open>The mapping of upstream errors\<close>






section \<open>The authentication handshake\<close>

lemma obj_get_put_same [simp]: "obj_get (obj_put k v kvs) k = v"
  by (induction kvs) (auto simp add: obj_get_def)

lemma obj_get_put_other [simp]: "k' \<noteq> k \<Longrightarrow> obj_get (obj_put k v kvs) k' = obj_get kvs k'"
  by (induction kvs) (auto simp add: obj_get_def)

text \<open>
  C8. When the broker's session endpoint answers with HTTP success: if either token
  (the \<open>cst\<close> or the \<open>x-security-token\<close> response header) is missing or empty,
  \<open>authenticate\<close> returns \<open>success = false\<close> with error code \<open>AUTH_ERROR\<close> and no
  session, and leaves the client's default headers alone; if both tokens are there and
  the answer has a body (any value but \<open>null\<close>), it returns \<open>success = true\<close> with a
  session that carries both tokens and \<open>authenticated = true\<close>, and the client's default
  headers \<open>CST\<close> and \<open>X-SECURITY-TOKEN\<close> are the two tokens.
\<close>

theorem C8_authenticate_tokens:
  assumes "http h (make_request c (session_config creds)) = Resolved r"
  shows "(header_token r ''cst'' = None \<or> header_token r ''x-security-token'' = None \<longrightarrow>
            \<not> success (fst (authenticate h c creds))
            \<and> data (fst (authenticate h c creds)) = None
            \<and> map_option errorCode (error (fst (authenticate h c creds))) = Some (JStr ''AUTH_ERROR'')
            \<and> defaults (snd (authenticate h c creds)) = defaults c)
       \<and> (header_token r ''cst'' = Some t1 \<and> header_token r ''x-security-token'' = Some t2
            \<and> \<not> nullish (resp_data r) \<longrightarrow>
            success (fst (authenticate h c creds))
            \<and> (\<exists>s. data (fst (authenticate h c creds)) = Some s
                   \<and> cst s = Some t1 \<and> xSecurityToken s = Some t2
                   \<and> clientSessionToken s = Some t1 \<and> securityToken s = Some t2
                   \<and> authenticated s)
            \<and> obj_get (defaults (snd (authenticate h c creds))) ''CST'' = JStr t1
            \<and> obj_get (defaults (snd (authenticate h c creds))) ''X-SECURITY-TOKEN'' = JStr t2)"
  using assms
  by (auto simp add: authenticate_def axios_request_def Let_def header_token_def opt_str_def
      js_get_def ok_response_def split: option.splits if_splits)

theorem C8_witness:
  "header_token sample_response ''cst'' = Some ''CST-1''
   \<and> header_token sample_response ''x-security-token'' = Some ''XST-1''
   \<and> success (fst (authenticate sample_host sample_client sample_credentials))
   \<and> map_option cst (data (fst (authenticate sample_host sample_client sample_credentials))) = Some (Some ''CST-1'')
   \<and> obj_get (defaults (snd (authenticate sample_host sample_client sample_credentials))) ''CST'' = JStr ''CST-1''
   \<and> obj_get (defaults (snd (authenticate sample_host sample_client sample_credentials))) ''X-SECURITY-TOKEN''
       = JStr ''XST-1''
   \<and> header_token (sample_response\<lparr>resp_headers := [(''cst'', ''CST-1'')]\<rparr>) ''x-security-token'' = None
   \<and> \<not> success (fst (authenticate tokenless_host sample_client sample_credentials))
   \<and> map_option errorCode (error (fst (authenticate tokenless_host sample_client sample_credentials)))
       = Some (JStr ''AUTH_ERROR'')"
  using
    C8_authenticate_tokens
      [of sample_host sample_client sample_credentials sample_response "''CST-1''" "''XST-1''"]
    C8_authenticate_tokens
      [of tokenless_host sample_client sample_credentials
          "sample_response\<lparr>resp_headers := [(''cst'', ''CST-1'')]\<rparr>" "''CST-1''" "''XST-1''"]
  by (simp add: client_defs sample_defs header_token_def Let_def)

section \<open>The catch-all of the dispatcher\<close>

text \<open>On arguments that render, the methods on any argument are the methods on strings.\<close>

lemma api_call_untyped_rendered:
  "api_call_untyped h c (Inr msg) build k = returned (api_call h c msg build k)"
  by (simp add: api_call_untyped_def api_call_def returned_def Let_def
      split: prod.splits http_outcome.splits sum.splits)

lemma perform_untyped_rendered:
  assumes "\<forall>v \<in> set (interpolated call). renders v" "\<forall>r a. call \<noteq> PlaceOrder r a"
  shows "perform_untyped h c call = returned (perform h c call)"
proof (cases call)
  case (GetAccountBalance a)
  with assms show ?thesis
    by (simp add: getAccountBalance_untyped_def getAccountBalance_def render_def api_call_untyped_rendered)
next
  case (ClosePosition d dir sz)
  with assms show ?thesis
    by (simp add: closePosition_untyped_def closePosition_def render_def api_call_untyped_rendered)
next
  case (DeleteWorkingOrder d)
  with assms show ?thesis
    by (simp add: deleteWorkingOrder_untyped_def deleteWorkingOrder_def render_def api_call_untyped_rendered)
next
  case (GetMarketData e)
  with assms show ?thesis
    by (simp add: getMarketData_untyped_def getMarketData_def render_def api_call_untyped_rendered)
next
  case (SearchInstruments s)
  with assms show ?thesis
    by (simp add: searchInstruments_untyped_def searchInstruments_def render_def api_call_untyped_rendered)
next
  case (GetHistoricalPrices e r f t p)
  with assms show ?thesis
    by (simp add: getHistoricalPrices_untyped_def getHistoricalPrices_def render_def and_then_def
        api_call_untyped_rendered cong: sum.case_cong)
next
  case (GetWatchlistMarkets w)
  with assms show ?thesis
    by (simp add: getWatchlistMarkets_untyped_def getWatchlistMarkets_def render_def api_call_untyped_rendered)
next
  case (CallAPI m e p v a)
  with assms show ?thesis
    by (simp add: callAPI_untyped_def callAPI_def render_def api_call_untyped_rendered)
qed (use assms in simp_all)


lemma promise_fulfilled:
  "executeToolCall_promise ops cfg name a st
   = (Inr (fst (executeToolCall ops cfg name a st)), snd (executeToolCall ops cfg name a st))"
  by (simp add: executeToolCall_promise_def executeToolCall_def try_catch_def Let_def
      split: prod.splits sum.splits)

text \<open>
  C9. For every client, configuration, tool name, argument record and state: when the
  body of the handler throws an exception, the promise of \<open>executeToolCall\<close> is
  fulfilled, not rejected, with an envelope that has \<open>isError = true\<close> and
  \<open>data = null\<close>; for a thrown \<open>Error\<close> its message is \<open>Unexpected error:\<close> followed
  by the message of the error, and \<open>debug.error\<close> is its stack; for anything else that
  was thrown both hold its string. For no tool name, arguments and state is the promise
  rejected. The body does throw with the repository's client: \<open>ig_get_account_balance\<close>
  with an \<open>accountId\<close> that cannot be rendered fails in the \<open>try\<close> of
  \<open>getAccountBalance\<close> and again in its \<open>catch\<close>.
\<close>

theorem C9_exceptions_become_envelopes:
  assumes "dispatch ops cfg name a (currentConnectionId st)
             (fst (getClient ops cfg (currentConnectionId st) st))
             (snd (getClient ops cfg (currentConnectionId st) st)) = (Inl e, st1)"
  shows "(\<exists>env. executeToolCall_promise ops cfg name a st = (Inr env, st1)
            \<and> executeToolCall ops cfg name a st = (env, st1)
            \<and> isError env
            \<and> decoded_field env ''data'' = Some JNull
            \<and> (\<forall>n m s. e = JsError n m s \<longrightarrow>
                  decoded_field env ''message'' = Some (JStr (''Unexpected error: '' @ m))
                  \<and> decoded_field env ''debug'' = Some (JObj [(''error'', JStr s)]))
            \<and> (\<forall>t. e = JsThrown t \<longrightarrow>
                  decoded_field env ''message'' = Some (JStr (''Unexpected error: '' @ t))
                  \<and> decoded_field env ''debug'' = Some (JObj [(''error'', JStr t)])))
       \<and> (\<forall>name' a' st' e'. fst (executeToolCall_promise ops cfg name' a' st') \<noteq> Inl e')"
proof -
  have run: "executeToolCall ops cfg name a st = (unexpected_error e, st1)"
    using assms by (simp add: executeToolCall_def Let_def case_prod_beta)
  then have "executeToolCall_promise ops cfg name a st = (Inr (unexpected_error e), st1)"
    by (simp add: promise_fulfilled)
  moreover have "isError (unexpected_error e)"
    by (simp add: unexpected_error_def)
  moreover have "decoded_field (unexpected_error e) ''data'' = Some JNull"
    by (simp add: unexpected_error_def decoded_field_def decoded_def tool_result_def
        formatResponse_def)
  moreover have "\<forall>n m s. e = JsError n m s \<longrightarrow>
      decoded_field (unexpected_error e) ''message'' = Some (JStr (''Unexpected error: '' @ m))
      \<and> decoded_field (unexpected_error e) ''debug'' = Some (JObj [(''error'', JStr s)])"
    by (simp add: unexpected_error_def decoded_field_def decoded_def tool_result_def
        formatResponse_def str_or_def)
  moreover have "\<forall>t. e = JsThrown t \<longrightarrow>
      decoded_field (unexpected_error e) ''message'' = Some (JStr (''Unexpected error: '' @ t))
      \<and> decoded_field (unexpected_error e) ''debug'' = Some (JObj [(''error'', JStr t)])"
    by (simp add: unexpected_error_def decoded_field_def decoded_def tool_result_def
        formatResponse_def str_or_def)
  moreover have "\<forall>name' a' st' e'. fst (executeToolCall_promise ops cfg name' a' st') \<noteq> Inl e'"
    by (simp add: promise_fulfilled)
  ultimately show ?thesis using run by blast
qed

theorem C9_witness:
  "fst (dispatch (ig_ops_untyped sample_host) sample_config ''ig_get_account_balance''
          (Some [(''accountId'', unrenderable)]) ''conn_1''
          (fst (getClient (ig_ops_untyped sample_host) sample_config ''conn_1'' logged_in))
          (snd (getClient (ig_ops_untyped sample_host) sample_config ''conn_1'' logged_in)))
     = Inl (JsError ''TypeError'' ''Cannot convert object to primitive value'' [])
   \<and> isError (fst (executeToolCall (ig_ops_untyped sample_host) sample_config ''ig_get_account_balance''
                     (Some [(''accountId'', unrenderable)]) logged_in))
   \<and> decoded_field (fst (executeToolCall (ig_ops_untyped sample_host) sample_config
                            ''ig_get_account_balance'' (Some [(''accountId'', unrenderable)]) logged_in))
        ''message'' = Some (JStr ''Unexpected error: Cannot convert object to primitive value'')
   \<and> fst (dispatch failing_ops sample_config ''ig_login'' None ''conn_1''
            (fst (getClient failing_ops sample_config ''conn_1'' fresh_server))
            (snd (getClient failing_ops sample_config ''conn_1'' fresh_server)))
     = Inl (JsError ''Error'' ''socket hang up'' ''Error: socket hang up'')
   \<and> decoded_field (fst (executeToolCall failing_ops sample_config ''ig_login'' None fresh_server))
        ''message'' = Some (JStr ''Unexpected error: socket hang up'')
   \<and> decoded_field (fst (executeToolCall failing_ops sample_config ''ig_login'' None fresh_server))
        ''debug'' = Some (JObj [(''error'', JStr ''Error: socket hang up'')])
   \<and> fst (dispatch failing_ops sample_config ''ig_get_accounts'' None ''conn_1''
            (fst (getClient failing_ops sample_config ''conn_1'' signed_in))
            (snd (getClient failing_ops sample_config ''conn_1'' signed_in)))
     = Inl (JsThrown ''boom'')
   \<and> decoded_field (fst (executeToolCall failing_ops sample_config ''ig_get_accounts'' None signed_in))
        ''message'' = Some (JStr ''Unexpected error: boom'')
   \<and> decoded_field (fst (executeToolCall failing_ops sample_config ''ig_get_accounts'' None signed_in))
        ''debug'' = Some (JObj [(''error'', JStr ''boom'')])
   \<and> (\<exists>env. fst (executeToolCall_promise failing_ops sample_config ''ig_get_accounts'' None signed_in)
              = Inr env)"
proof -
  let ?d1 = "dispatch (ig_ops_untyped sample_host) sample_config ''ig_get_account_balance''
          (Some [(''accountId'', unrenderable)]) (currentConnectionId logged_in)
          (fst (getClient (ig_ops_untyped sample_host) sample_config (currentConnectionId logged_in) logged_in))
          (snd (getClient (ig_ops_untyped sample_host) sample_config (currentConnectionId logged_in) logged_in))"
  let ?d2 = "dispatch failing_ops sample_config ''ig_login'' None (currentConnectionId (fresh_server :: unit server))
            (fst (getClient failing_ops sample_config (currentConnectionId (fresh_server :: unit server)) fresh_server))
            (snd (getClient failing_ops sample_config (currentConnectionId (fresh_server :: unit server)) fresh_server))"
  let ?d3 = "dispatch failing_ops sample_config ''ig_get_accounts'' None (currentConnectionId (signed_in :: unit server))
            (fst (getClient failing_ops sample_config (currentConnectionId (signed_in :: unit server)) signed_in))
            (snd (getClient failing_ops sample_config (currentConnectionId (signed_in :: unit server)) signed_in))"
  have c: "currentConnectionId logged_in = ''conn_1''"
    "currentConnectionId (fresh_server :: unit server) = ''conn_1''"
    "currentConnectionId (signed_in :: unit server) = ''conn_1''"
    by (simp_all add: logged_in_def server_defs client_defs sample_defs untyped_defs Let_def)
  have f1: "fst ?d1 = Inl (JsError ''TypeError'' ''Cannot convert object to primitive value'' [])"
    by (simp add: logged_in_def server_defs client_defs sample_defs untyped_defs Let_def)
  have f2: "fst ?d2 = Inl (JsError ''Error'' ''socket hang up'' ''Error: socket hang up'')"
    by (simp add: server_defs sample_defs untyped_defs Let_def js_or_def)
  have f3: "fst ?d3 = Inl (JsThrown ''boom'')"
    by (simp add: server_defs sample_defs untyped_defs Let_def)
  have h1: "?d1 = (Inl (JsError ''TypeError'' ''Cannot convert object to primitive value'' []), snd ?d1)"
    using f1 by (simp add: prod_eq_iff)
  have h2: "?d2 = (Inl (JsError ''Error'' ''socket hang up'' ''Error: socket hang up''), snd ?d2)"
    using f2 by (simp add: prod_eq_iff)
  have h3: "?d3 = (Inl (JsThrown ''boom''), snd ?d3)"
    using f3 by (simp add: prod_eq_iff)
  from C9_exceptions_become_envelopes[OF h1] C9_exceptions_become_envelopes[OF h2]
    C9_exceptions_become_envelopes[OF h3] f1 f2 f3 c
  show ?thesis by auto
qed

section \<open>The gatekeeping secret\<close>

text \<open>
  C10. If no \<open>MCP_SERVER_API_KEY\<close> is configured, \<open>mcp_authenticate\<close> returns a success
  envelope with data \<open>authenticated: true\<close> whatever its arguments are (a missing key
  and a wrong key included). If a secret is configured and \<open>REQUIRE_AUTHENTICATION\<close>
  is off, \<open>authenticateConnection\<close> accepts every key, and \<open>mcp_authenticate\<close> returns
  the success envelope \<open>Successfully authenticated with MCP server\<close> whatever its
  arguments are.
\<close>

theorem C10_mcp_authenticate_without_check:
  "(MCP_SERVER_API_KEY cfg = [] \<longrightarrow>
      \<not> isError (fst (executeToolCall ops cfg ''mcp_authenticate'' a st))
      \<and> decoded_field (fst (executeToolCall ops cfg ''mcp_authenticate'' a st)) ''data''
          = Some (JObj [(''authenticated'', JBool True)])
      \<and> decoded_field (fst (executeToolCall ops cfg ''mcp_authenticate'' a st)) ''message''
          = Some (JStr ''No API key required. Server is open for connections.''))
   \<and> (MCP_SERVER_API_KEY cfg \<noteq> [] \<and> \<not> REQUIRE_AUTHENTICATION cfg \<longrightarrow>
      fst (authenticateConnection cfg (currentConnectionId st) key st)
      \<and> \<not> isError (fst (executeToolCall ops cfg ''mcp_authenticate'' a st))
      \<and> decoded_field (fst (executeToolCall ops cfg ''mcp_authenticate'' a st)) ''data''
          = Some (JObj [(''authenticated'', JBool True), (''connectionId'', JStr (currentConnectionId st))])
      \<and> decoded_field (fst (executeToolCall ops cfg ''mcp_authenticate'' a st)) ''message''
          = Some (JStr ''Successfully authenticated with MCP server. You can now use IG API tools.''))"
  by (simp add: executeToolCall_def dispatch_def tool_mcp_authenticate_def authenticateConnection_def
      isConnectionAuthenticated_def decoded_field_def decoded_def tool_result_def formatResponse_def
      str_or_def Let_def split: prod.splits)

theorem C10_witness:
  "MCP_SERVER_API_KEY sample_config = []
   \<and> \<not> isError (fst (executeToolCall (ig_ops sample_host) sample_config ''mcp_authenticate''
                       (Some [(''apiKey'', JStr ''wrong'')]) fresh_server))
   \<and> \<not> isError (fst (executeToolCall (ig_ops sample_host) sample_config ''mcp_authenticate''
                       None fresh_server))
   \<and> MCP_SERVER_API_KEY keyed_config \<noteq> [] \<and> \<not> REQUIRE_AUTHENTICATION keyed_config
   \<and> \<not> validateApiKey keyed_config (JStr ''wrong'')
   \<and> fst (authenticateConnection keyed_config ''conn_1'' (JStr ''wrong'') (fresh_server :: IGClient server))
   \<and> decoded_field (fst (executeToolCall (ig_ops sample_host) keyed_config ''mcp_authenticate''
                            (Some [(''apiKey'', JStr ''wrong'')]) fresh_server)) ''message''
       = Some (JStr ''Successfully authenticated with MCP server. You can now use IG API tools.'')"
  using
    C10_mcp_authenticate_without_check
      [of sample_config "ig_ops sample_host" "Some [(''apiKey'', JStr ''wrong'')]" fresh_server]
    C10_mcp_authenticate_without_check
      [of sample_config "ig_ops sample_host" None fresh_server]
    C10_mcp_authenticate_without_check
      [of keyed_config "ig_ops sample_host" "Some [(''apiKey'', JStr ''wrong'')]"
          "fresh_server :: IGClient server" "JStr ''wrong''"]
  by (simp add: server_defs sample_defs Let_def)

end
